theory Spec2Isabelle
  imports Main
begin

section \<open>Values of the wire format\<close>

text \<open>
  The module \<^verbatim>\<open>github3/pulls.py\<close> binds decoded JSON to Python objects. A decoded
  JSON value is a Python value: \<open>JNull\<close> is \<^verbatim>\<open>None\<close>, an object is a \<^verbatim>\<open>dict\<close> kept as an
  association list in insertion order (its keys are distinct), an array a \<^verbatim>\<open>list\<close>.
  Floating point numbers are left out.
\<close>

datatype json = JNull | JBool bool | JInt int | JStr string
  | JArr "json list" | JObj "(string \<times> json) list"

text \<open>Python's truth value of such a value, as tested by \<^verbatim>\<open>if x:\<close>.\<close>

fun truthy :: "json \<Rightarrow> bool" where
  "truthy JNull = False"
| "truthy (JBool b) = b"
| "truthy (JInt n) = (n \<noteq> 0)"
| "truthy (JStr s) = (s \<noteq> [])"
| "truthy (JArr xs) = (xs \<noteq> [])"
| "truthy (JObj d) = (d \<noteq> [])"

text \<open>Whether a value is a \<^verbatim>\<open>dict\<close>, and whether it is a \<^verbatim>\<open>str\<close>.\<close>

fun is_dict :: "json \<Rightarrow> bool" where
  "is_dict (JObj d) = True"
| "is_dict _ = False"

fun is_str :: "json \<Rightarrow> bool" where
  "is_str (JStr s) = True"
| "is_str _ = False"

text \<open>Python's \<^verbatim>\<open>==\<close> on these values: \<^verbatim>\<open>True == 1\<close>, and two dicts are equal when they
  hold equal values under the same keys, in any order.\<close>

fun py_eq :: "json \<Rightarrow> json \<Rightarrow> bool" where
  "py_eq JNull JNull = True"
| "py_eq (JBool a) (JBool b) = (a = b)"
| "py_eq (JBool a) (JInt n) = ((if a then 1 else 0) = n)"
| "py_eq (JInt n) (JBool a) = (n = (if a then 1 else 0))"
| "py_eq (JInt m) (JInt n) = (m = n)"
| "py_eq (JStr s) (JStr t) = (s = t)"
| "py_eq (JArr xs) (JArr ys) = list_all2 py_eq xs ys"
| "py_eq (JObj a) (JObj b) =
     (length a = length b \<and>
      list_all (\<lambda>(k, v). case map_of b k of None \<Rightarrow> False | Some w \<Rightarrow> py_eq v w) a)"
| "py_eq _ _ = False"

definition py_ne :: "json \<Rightarrow> json \<Rightarrow> bool" where
  "py_ne a b = (\<not> py_eq a b)"

text \<open>The exceptions the module's own expressions can raise.\<close>

datatype error = AttributeError | KeyError | TypeError | ValueError

text \<open>\<^verbatim>\<open>d.get(k, dflt)\<close> on a dict, the same call on any value (only a dict has the
  method), and the subscript \<^verbatim>\<open>x[k]\<close> with a string key.\<close>

definition dict_get :: "(string \<times> json) list \<Rightarrow> string \<Rightarrow> json \<Rightarrow> json" where
  "dict_get d k dflt = (case map_of d k of None \<Rightarrow> dflt | Some v \<Rightarrow> v)"

fun py_get :: "json \<Rightarrow> string \<Rightarrow> json \<Rightarrow> error + json" where
  "py_get (JObj d) k dflt = Inr (dict_get d k dflt)"
| "py_get _ k dflt = Inl AttributeError"

fun py_item :: "json \<Rightarrow> string \<Rightarrow> error + json" where
  "py_item (JObj d) k = (case map_of d k of None \<Rightarrow> Inl KeyError | Some v \<Rightarrow> Inr v)"
| "py_item _ k = Inl TypeError"

text \<open>\<^verbatim>\<open>s.replace(old, new)\<close> for a non-empty \<open>old\<close> (the module calls it with the
  literal \<^verbatim>\<open>'pulls'\<close>): every occurrence, left to right, without overlap.\<close>

function str_replace :: "string \<Rightarrow> string \<Rightarrow> string \<Rightarrow> string" where
  "str_replace old new [] = []"
| "str_replace old new (c # cs) =
     (if old \<noteq> [] \<and> take (length old) (c # cs) = old
      then new @ str_replace old new (drop (length old) (c # cs))
      else c # str_replace old new cs)"
  by pat_completeness auto
termination
  by (relation "measure (\<lambda>(old, new, s). length s)") auto

fun py_replace :: "json \<Rightarrow> string \<Rightarrow> string \<Rightarrow> error + json" where
  "py_replace (JStr s) old new = Inr (JStr (str_replace old new s))"
| "py_replace _ old new = Inl AttributeError"

text \<open>\<^verbatim>\<open>s.rfind(c)\<close>: the index of the last \<open>c\<close> in \<open>s\<close>, or \<open>-1\<close>; and the slice
  \<^verbatim>\<open>s[i:]\<close> for \<open>i \<ge> 0\<close>.\<close>

definition rfind :: "string \<Rightarrow> char \<Rightarrow> int" where
  "rfind s c =
     (if c \<in> set s
      then int (length s) - 1 - int (length (takeWhile (\<lambda>x. x \<noteq> c) (rev s)))
      else - 1)"

definition slice_from :: "string \<Rightarrow> int \<Rightarrow> string" where
  "slice_from s i = drop (nat i) s"

text \<open>
  The conversion \<^verbatim>\<open>int(x)\<close>. An \<^verbatim>\<open>int\<close> is returned as it is and a \<^verbatim>\<open>bool\<close> as 0 or 1;
  \<^verbatim>\<open>None\<close>, a list and a dict raise \<^verbatim>\<open>TypeError\<close>. A string is read as a decimal
  literal: surrounding whitespace is dropped, one sign may lead, and single underscores
  may stand between digits (Python 3); any other string raises \<^verbatim>\<open>ValueError\<close>. Strings are
  ASCII here.
\<close>

definition is_space :: "char \<Rightarrow> bool" where
  "is_space c = (c \<in> set [CHR '' '', CHR 0x09, CHR 0x0A, CHR 0x0B, CHR 0x0C, CHR 0x0D])"

definition py_strip :: "string \<Rightarrow> string" where
  "py_strip s = rev (dropWhile is_space (rev (dropWhile is_space s)))"

definition digit_of :: "char \<Rightarrow> nat option" where
  "digit_of c = map_of
     [(CHR ''0'', 0), (CHR ''1'', 1), (CHR ''2'', 2), (CHR ''3'', 3), (CHR ''4'', 4),
      (CHR ''5'', 5), (CHR ''6'', 6), (CHR ''7'', 7), (CHR ''8'', 8), (CHR ''9'', 9)] c"

fun parse_digits :: "string \<Rightarrow> nat \<Rightarrow> nat option" where
  "parse_digits [] acc = Some acc"
| "parse_digits (c # cs) acc =
     (case digit_of c of
        Some v \<Rightarrow> parse_digits cs (10 * acc + v)
      | None \<Rightarrow>
          (if c = CHR ''_'' \<and> cs \<noteq> [] \<and> digit_of (hd cs) \<noteq> None
           then parse_digits cs acc else None))"

definition parse_unsigned :: "string \<Rightarrow> nat option" where
  "parse_unsigned s =
     (case s of [] \<Rightarrow> None
      | c # cs \<Rightarrow> if digit_of c = None then None else parse_digits s 0)"

definition parse_int :: "string \<Rightarrow> int option" where
  "parse_int s =
     (case py_strip s of
        [] \<Rightarrow> None
      | c # cs \<Rightarrow>
          if c = CHR ''-'' then map_option (\<lambda>n. - int n) (parse_unsigned cs)
          else if c = CHR ''+'' then map_option int (parse_unsigned cs)
          else map_option int (parse_unsigned (c # cs)))"

fun py_int :: "json \<Rightarrow> error + int" where
  "py_int (JInt n) = Inr n"
| "py_int (JBool b) = Inr (if b then 1 else 0)"
| "py_int (JStr s) = (case parse_int s of None \<Rightarrow> Inl ValueError | Some n \<Rightarrow> Inr n)"
| "py_int _ = Inl TypeError"

section \<open>Objects of other modules\<close>

text \<open>
  \<^verbatim>\<open>User\<close>, \<^verbatim>\<open>Repository\<close>, \<^verbatim>\<open>Issue\<close>, \<^verbatim>\<open>IssueComment\<close>, \<^verbatim>\<open>RepoCommit\<close>, \<^verbatim>\<open>Contents\<close>,
  \<^verbatim>\<open>URITemplate\<close> and \<^verbatim>\<open>datetime\<close> are classes of other modules. An instance is kept as
  the class name and the value its constructor was given; \<open>NullObject\<close> is the null
  object that \<^verbatim>\<open>_instance_or_null\<close> hands out when there is nothing to build from.
\<close>

datatype py_instance = Instance string json | NullObject string

text \<open>An attribute that holds either an object built from the wire value or, when
  nothing was built, the plain (falsy) value itself.\<close>

datatype 'a class_attr = Built 'a | Plain json

section \<open>The helpers of \<^verbatim>\<open>models.GitHubCore\<close>\<close>

text \<open>
  Every class of the module derives from \<^verbatim>\<open>models.GitHubCore\<close>, whose file is not
  among the sources. Its helpers are modelled here from what the specification says
  of them: a record is built from a wire object key by key, a missing key giving the
  null or default value; a method performs one HTTP verb through the injected client
  and decodes the response; pagination is a lazy sequence helper.
\<close>

definition get_attribute :: "json \<Rightarrow> string \<Rightarrow> json \<Rightarrow> json" where
  \<comment> \<open>Modelled from the spec: \<^verbatim>\<open>GitHubCore._get_attribute(data, attribute, fallback)\<close>,
      missing from the sources. The value under the key; the fallback when the key is
      missing (a value that is no object has no keys).\<close>
  "get_attribute data attribute fallback =
     (case data of JObj d \<Rightarrow> dict_get d attribute fallback | _ \<Rightarrow> fallback)"

definition class_attribute :: "json \<Rightarrow> string \<Rightarrow> (json \<Rightarrow> 'a) \<Rightarrow> 'a class_attr" where
  \<comment> \<open>Modelled from the spec: \<^verbatim>\<open>GitHubCore._class_attribute(data, attribute, cl, *args)\<close>,
      missing from the sources. The class applied to the value under the key; a
      missing (or otherwise falsy) value is kept as it is.\<close>
  "class_attribute data attribute cl =
     (let v = get_attribute data attribute JNull
      in if truthy v then Built (cl v) else Plain v)"

definition strptime_attribute :: "json \<Rightarrow> string \<Rightarrow> py_instance class_attr" where
  \<comment> \<open>Modelled from the spec: \<^verbatim>\<open>GitHubCore._strptime_attribute(data, attribute)\<close>,
      missing from the sources. The \<^verbatim>\<open>datetime\<close> parsed from the value under the key;
      a missing (or otherwise falsy) value is kept as it is.\<close>
  "strptime_attribute data attribute = class_attribute data attribute (Instance ''datetime'')"

definition remove_none :: "(string \<times> json) list \<Rightarrow> (string \<times> json) list" where
  \<comment> \<open>Modelled from the spec: \<^verbatim>\<open>GitHubCore._remove_none(data)\<close>, missing from the
      sources. It deletes the entries whose value is \<^verbatim>\<open>None\<close> from the dict.\<close>
  "remove_none data = filter (\<lambda>(k, v). v \<noteq> JNull) data"

definition instance_or_null :: "string \<Rightarrow> json \<Rightarrow> py_instance" where
  \<comment> \<open>Modelled from the spec: \<^verbatim>\<open>GitHubCore._instance_or_null(cls, json)\<close>, missing from
      the sources. The decoded response as an instance of the class, or the null
      object when there is no decoded response.\<close>
  "instance_or_null cls j = (if j = JNull then NullObject cls else Instance cls j)"

text \<open>
  A URL handed to the client is either a value stored on the object or one that
  \<^verbatim>\<open>_build_url(*segments, base_url=b)\<close> makes; that helper is missing from the sources
  and its result is kept as the call itself: the sub-URL of \<open>b\<close> under the segments.
\<close>

datatype url = Url json | BuildUrl "string list" json

text \<open>
  The lazy sequence \<^verbatim>\<open>_iter(count, url, cls, etag=..., headers=...)\<close> returns. The
  pagination helper is missing from the sources; the sequence is kept as the
  arguments it was made from, and making it sends nothing (it is lazy).
\<close>

record github_iterator =
  it_count :: int
  it_url :: url
  it_cls :: string
  it_etag :: json
  it_headers :: "(string \<times> string) list"

definition iter :: "int \<Rightarrow> url \<Rightarrow> string \<Rightarrow> json \<Rightarrow> (string \<times> string) list \<Rightarrow> github_iterator" where
  \<comment> \<open>Modelled from the spec: \<^verbatim>\<open>GitHubCore._iter\<close>, the generic lazy pagination helper,
      missing from the sources.\<close>
  "iter count u cls etag hs =
     \<lparr>it_count = count, it_url = u, it_cls = cls, it_etag = etag, it_headers = hs\<rparr>"

section \<open>The injected HTTP client\<close>

text \<open>
  A request as a method hands it to \<^verbatim>\<open>_get\<close>, \<^verbatim>\<open>_post\<close>, \<^verbatim>\<open>_put\<close> or \<^verbatim>\<open>_patch\<close>:
  the verb, the URL, the \<^verbatim>\<open>data\<close> argument (a dict, or the string \<^verbatim>\<open>json.dumps\<close> makes
  of one, kept as \<open>Dumps\<close> of the dict) and the \<^verbatim>\<open>headers\<close> argument (empty when none is
  passed). A response has a status code, a raw body and the value \<^verbatim>\<open>response.json()\<close>
  decodes from it; JSON parsing belongs to the client. The client is a function from
  requests to responses, and a call of a method returns the requests it sent, in
  order, beside its result.
\<close>

datatype verb = GET | POST | PUT | PATCH

datatype payload = NoData | Dict "(string \<times> json) list" | Dumps "(string \<times> json) list"

record request =
  rq_verb :: verb
  rq_url :: url
  rq_data :: payload
  rq_headers :: "(string \<times> string) list"

record response =
  status_code :: int
  content :: string
  decoded :: json

type_synonym client = "request \<Rightarrow> response"

type_synonym 'a call = "request list \<times> 'a"

definition boolean :: "response \<Rightarrow> int \<Rightarrow> int \<Rightarrow> bool" where
  \<comment> \<open>Modelled from the spec: \<^verbatim>\<open>GitHubCore._boolean(response, true_code, false_code)\<close>,
      missing from the sources. True exactly when the status is \<open>true_code\<close>.\<close>
  "boolean resp true_code false_code = (status_code resp = true_code)"

definition json_of :: "response \<Rightarrow> int \<Rightarrow> json" where
  \<comment> \<open>Modelled from the spec: \<^verbatim>\<open>GitHubCore._json(response, status_code)\<close>, missing from
      the sources. The decoded body of a response with that status, else \<^verbatim>\<open>None\<close>.\<close>
  "json_of resp code = (if boolean resp code 404 then decoded resp else JNull)"

section \<open>The record types\<close>

subsection \<open>\<^verbatim>\<open>PullDestination\<close>\<close>

text \<open>
  \<^verbatim>\<open>PullDestination.__init__(self, dest, direction)\<close> reads \<open>dest\<close> with \<^verbatim>\<open>dest.get\<close>,
  which a value that is no dict does not have, and with the subscripts
  \<^verbatim>\<open>dest['repo']['owner']\<close>, which raise when the key is missing. The attribute
  \<^verbatim>\<open>repository\<close> is assigned only under \<^verbatim>\<open>if dest.get('repo')\<close>: \<open>None\<close> stands for an
  attribute that was never assigned. \<^verbatim>\<open>user\<close> is \<^verbatim>\<open>None\<close> or a \<^verbatim>\<open>User\<close>.
\<close>

record pull_destination =
  pd_direction :: string
  pd_ref :: json
  pd_label :: json
  pd_user :: "py_instance class_attr"
  pd_sha :: json
  pd_repo_name :: json
  pd_repo_owner :: json
  pd_repository :: "py_instance option"
  pd_repo :: "json \<times> json"

fun PullDestination :: "json \<Rightarrow> string \<Rightarrow> error + pull_destination" where
  "PullDestination (JObj d) direction =
     (let ref = dict_get d ''ref'' JNull;
          label = dict_get d ''label'' JNull;
          user = (if truthy (dict_get d ''user'' JNull)
                  then Built (Instance ''User'' (dict_get d ''user'' JNull))
                  else Plain JNull);
          sha = dict_get d ''sha'' JNull;
          repo = dict_get d ''repo'' JNull
      in if truthy repo then
           (case py_get repo ''name'' JNull of Inl e \<Rightarrow> Inl e | Inr name \<Rightarrow>
           (case py_item repo ''owner'' of Inl e \<Rightarrow> Inl e | Inr owner \<Rightarrow>
           (case py_get owner ''login'' JNull of Inl e \<Rightarrow> Inl e | Inr login \<Rightarrow>
              Inr \<lparr>pd_direction = direction, pd_ref = ref, pd_label = label,
                   pd_user = user, pd_sha = sha, pd_repo_name = name,
                   pd_repo_owner = login,
                   pd_repository = Some (Instance ''Repository'' repo),
                   pd_repo = (login, name)\<rparr>)))
         else
           Inr \<lparr>pd_direction = direction, pd_ref = ref, pd_label = label,
                pd_user = user, pd_sha = sha, pd_repo_name = JStr [],
                pd_repo_owner = JStr [], pd_repository = None,
                pd_repo = (JStr [], JStr [])\<rparr>)"
| "PullDestination _ direction = Inl AttributeError"

subsection \<open>\<^verbatim>\<open>PullFile\<close>\<close>

record pull_file =
  pf_sha :: json
  pf_filename :: json
  pf_status :: json
  pf_additions_count :: json
  pf_deletions_count :: json
  pf_changes_count :: json
  pf_blob_url :: json
  pf_raw_url :: json
  pf_patch :: json
  pf_contents_url :: json

definition PullFile_update_attributes :: "json \<Rightarrow> pull_file" where
  "PullFile_update_attributes pfile =
     \<lparr>pf_sha = get_attribute pfile ''sha'' JNull,
      pf_filename = get_attribute pfile ''filename'' JNull,
      pf_status = get_attribute pfile ''status'' JNull,
      pf_additions_count = get_attribute pfile ''additions'' JNull,
      pf_deletions_count = get_attribute pfile ''deletions'' JNull,
      pf_changes_count = get_attribute pfile ''changes'' JNull,
      pf_blob_url = get_attribute pfile ''blob_url'' JNull,
      pf_raw_url = get_attribute pfile ''raw_url'' JNull,
      pf_patch = get_attribute pfile ''patch'' JNull,
      pf_contents_url = get_attribute pfile ''contents_url'' JNull\<rparr>"

subsection \<open>\<^verbatim>\<open>PullRequest\<close>\<close>

text \<open>
  \<^verbatim>\<open>PullRequest._update_attributes(self, pull)\<close> assigns every attribute of the
  object, so the object it leaves depends on \<open>pull\<close> alone. Building \<^verbatim>\<open>base\<close> and
  then \<^verbatim>\<open>head\<close> can raise (see \<open>PullDestination\<close>); the exception reaches the caller and
  the half-assigned object is not described. \<^verbatim>\<open>repository\<close> is \<^verbatim>\<open>self.base\<close>, replaced by
  \<^verbatim>\<open>self.base.repo\<close> when it is truthy.
\<close>

record pull_request =
  pr_api :: json
  pr_base :: "pull_destination class_attr"
  pr_body :: json
  pr_body_html :: json
  pr_body_text :: json
  pr_additions_count :: json
  pr_deletions_count :: json
  pr_closed_at :: "py_instance class_attr"
  pr_comments_count :: json
  pr_comments_url :: json
  pr_commits_count :: json
  pr_commits_url :: json
  pr_created_at :: "py_instance class_attr"
  pr_diff_url :: json
  pr_head :: "pull_destination class_attr"
  pr_html_url :: json
  pr_id :: json
  pr_issue_url :: json
  pr_statuses_url :: json
  pr_links :: json
  pr_merged :: json
  pr_merged_at :: "py_instance class_attr"
  pr_mergeable :: json
  pr_mergeable_state :: json
  pr_merged_by :: "py_instance class_attr"
  pr_number :: json
  pr_patch_url :: json
  pr_review_comment_url :: "py_instance class_attr"
  pr_review_comments_count :: json
  pr_review_comments_url :: json
  pr_repository :: "(json \<times> json) class_attr"
  pr_state :: json
  pr_title :: json
  pr_updated_at :: "py_instance class_attr"
  pr_user :: "py_instance class_attr"
  pr_assignee :: "py_instance class_attr"

text \<open>\<^verbatim>\<open>_class_attribute(pull, key, PullDestination, direction)\<close>, with the exception of
  the constructor brought out.\<close>

definition destination_attribute ::
    "json \<Rightarrow> string \<Rightarrow> string \<Rightarrow> error + pull_destination class_attr" where
  "destination_attribute pull key direction =
     (case class_attribute pull key (\<lambda>v. PullDestination v direction) of
        Built (Inl e) \<Rightarrow> Inl e
      | Built (Inr d) \<Rightarrow> Inr (Built d)
      | Plain v \<Rightarrow> Inr (Plain v))"

definition PullRequest_update_attributes :: "json \<Rightarrow> error + pull_request" where
  "PullRequest_update_attributes pull =
     (case destination_attribute pull ''base'' ''Base'' of Inl e \<Rightarrow> Inl e | Inr base \<Rightarrow>
     (case destination_attribute pull ''head'' ''Head'' of Inl e \<Rightarrow> Inl e | Inr head \<Rightarrow>
        Inr \<lparr>pr_api = get_attribute pull ''url'' JNull,
             pr_base = base,
             pr_body = get_attribute pull ''body'' JNull,
             pr_body_html = get_attribute pull ''body_html'' JNull,
             pr_body_text = get_attribute pull ''body_text'' JNull,
             pr_additions_count = get_attribute pull ''additions'' JNull,
             pr_deletions_count = get_attribute pull ''deletions'' JNull,
             pr_closed_at = strptime_attribute pull ''closed_at'',
             pr_comments_count = get_attribute pull ''comments'' JNull,
             pr_comments_url = get_attribute pull ''comments_url'' JNull,
             pr_commits_count = get_attribute pull ''commits'' JNull,
             pr_commits_url = get_attribute pull ''commits_url'' JNull,
             pr_created_at = strptime_attribute pull ''created_at'',
             pr_diff_url = get_attribute pull ''diff_url'' JNull,
             pr_head = head,
             pr_html_url = get_attribute pull ''html_url'' JNull,
             pr_id = get_attribute pull ''id'' JNull,
             pr_issue_url = get_attribute pull ''issue_url'' JNull,
             pr_statuses_url = get_attribute pull ''statuses_url'' JNull,
             pr_links = get_attribute pull ''_links'' (JObj []),
             pr_merged = get_attribute pull ''merged'' JNull,
             pr_merged_at = strptime_attribute pull ''merged_at'',
             pr_mergeable = get_attribute pull ''mergeable'' (JBool False),
             pr_mergeable_state = get_attribute pull ''mergeable_state'' JNull,
             pr_merged_by = class_attribute pull ''merged_by'' (Instance ''User''),
             pr_number = get_attribute pull ''number'' JNull,
             pr_patch_url = get_attribute pull ''patch_url'' JNull,
             pr_review_comment_url =
               class_attribute pull ''review_comment_url'' (Instance ''URITemplate''),
             pr_review_comments_count = get_attribute pull ''review_comments'' JNull,
             pr_review_comments_url = get_attribute pull ''review_comments_url'' JNull,
             pr_repository =
               (case base of Built d \<Rightarrow> Built (pd_repo d) | Plain v \<Rightarrow> Plain v),
             pr_state = get_attribute pull ''state'' JNull,
             pr_title = get_attribute pull ''title'' JNull,
             pr_updated_at = strptime_attribute pull ''updated_at'',
             pr_user = class_attribute pull ''user'' (Instance ''User''),
             pr_assignee = class_attribute pull ''assignee'' (Instance ''User'')\<rparr>))"

subsection \<open>\<^verbatim>\<open>PullReview\<close>\<close>

record pull_review =
  rv_id :: json
  rv_commit_id :: json
  rv_user :: "py_instance class_attr"
  rv_state :: json
  rv_created_at :: "py_instance class_attr"
  rv_body :: json
  rv_pull_request_url :: json

definition PullReview_update_attributes :: "json \<Rightarrow> pull_review" where
  "PullReview_update_attributes preview =
     \<lparr>rv_id = get_attribute preview ''id'' JNull,
      rv_commit_id = get_attribute preview ''commit_id'' JNull,
      rv_user = class_attribute preview ''user'' (Instance ''User''),
      rv_state = get_attribute preview ''state'' JNull,
      rv_created_at = strptime_attribute preview ''created_at'',
      rv_body = get_attribute preview ''body'' JNull,
      rv_pull_request_url = get_attribute preview ''pull_request_url'' JNull\<rparr>"

subsection \<open>\<^verbatim>\<open>ReviewComment\<close>\<close>

text \<open>
  \<^verbatim>\<open>ReviewComment\<close> derives from \<^verbatim>\<open>models.BaseComment\<close>, missing from the sources, whose
  \<^verbatim>\<open>_update_attributes\<close> runs first. Of what it leaves on the object the module reads
  \<^verbatim>\<open>_api\<close> (in \<^verbatim>\<open>reply\<close>) and \<^verbatim>\<open>id\<close> (in the class docstring); \<open>rc_api\<close> and \<open>rc_id\<close> hold
  them, and \<open>ReviewComment_update_attributes\<close> takes the object as the superclass left
  it.
\<close>

record review_comment =
  rc_api :: json
  rc_id :: json
  rc_user :: "py_instance class_attr"
  rc_original_position :: json
  rc_path :: json
  rc_position :: json
  rc_commit_id :: json
  rc_diff_hunk :: json
  rc_original_commit_id :: json
  rc_pull_request_url :: json

definition ReviewComment_update_attributes :: "review_comment \<Rightarrow> json \<Rightarrow> review_comment" where
  "ReviewComment_update_attributes self comment =
     self\<lparr>rc_user := class_attribute comment ''user'' (Instance ''User''),
          rc_original_position := get_attribute comment ''original_position'' JNull,
          rc_path := get_attribute comment ''path'' JNull,
          rc_position := get_attribute comment ''position'' JNull,
          rc_commit_id := get_attribute comment ''commit_id'' JNull,
          rc_diff_hunk := get_attribute comment ''diff_hunk'' JNull,
          rc_original_commit_id := get_attribute comment ''original_commit_id'' JNull,
          rc_pull_request_url := get_attribute comment ''pull_request_url'' JNull\<rparr>"

section \<open>The methods\<close>

text \<open>
  A method takes the client and the object and returns the requests it sent beside
  its result. The decorator \<^verbatim>\<open>requires_auth\<close> (module \<^verbatim>\<open>decorators\<close>, missing from the
  sources) stands before \<^verbatim>\<open>close\<close>, \<^verbatim>\<open>create_comment\<close>, \<^verbatim>\<open>create_review_comment\<close>,
  \<^verbatim>\<open>merge\<close>, \<^verbatim>\<open>reopen\<close>, \<^verbatim>\<open>update\<close> and \<^verbatim>\<open>reply\<close>; the specification puts authentication
  outside the module, and the definitions are those of the method bodies. The
  arguments of a method are Python values; \<^verbatim>\<open>int(number)\<close> and \<^verbatim>\<open>int(position)\<close> are
  \<open>py_int\<close>, and a conversion that raises ends the call before anything is sent.
\<close>

subsection \<open>\<^verbatim>\<open>PullFile\<close>\<close>

definition contents :: "client \<Rightarrow> pull_file \<Rightarrow> py_instance call" where
  "contents c self =
     (let rq = \<lparr>rq_verb = GET, rq_url = Url (pf_contents_url self),
                rq_data = NoData, rq_headers = []\<rparr>;
          json = json_of (c rq) 200
      in ([rq], instance_or_null ''Contents'' json))"

subsection \<open>\<^verbatim>\<open>PullRequest\<close>\<close>

definition update ::
    "client \<Rightarrow> pull_request \<Rightarrow> json \<Rightarrow> json \<Rightarrow> json \<Rightarrow> (error + pull_request \<times> bool) call" where
  "update c self title body state =
     (let data = remove_none [(''title'', title), (''body'', body), (''state'', state)];
          rq = \<lparr>rq_verb = PATCH, rq_url = Url (pr_api self),
                rq_data = Dumps data, rq_headers = []\<rparr>;
          (sent, json) = (if data \<noteq> [] then ([rq], json_of (c rq) 200) else ([], JNull))
      in (sent,
          if truthy json
          then (case PullRequest_update_attributes json of
                  Inl e \<Rightarrow> Inl e
                | Inr self' \<Rightarrow> Inr (self', True))
          else Inr (self, False)))"

definition close :: "client \<Rightarrow> pull_request \<Rightarrow> (error + pull_request \<times> bool) call" where
  "close c self = update c self (pr_title self) (pr_body self) (JStr ''closed'')"

definition reopen :: "client \<Rightarrow> pull_request \<Rightarrow> (error + pull_request \<times> bool) call" where
  "reopen c self = update c self (pr_title self) (pr_body self) (JStr ''open'')"

definition create_comment :: "client \<Rightarrow> pull_request \<Rightarrow> json \<Rightarrow> py_instance call" where
  "create_comment c self body =
     (let u = pr_comments_url self;
          rq = \<lparr>rq_verb = POST, rq_url = Url u,
                rq_data = Dict [(''body'', body)], rq_headers = []\<rparr>;
          (sent, json) = (if truthy body then ([rq], json_of (c rq) 201) else ([], JNull))
      in (sent, instance_or_null ''IssueComment'' json))"

definition create_review_comment ::
    "client \<Rightarrow> pull_request \<Rightarrow> json \<Rightarrow> json \<Rightarrow> json \<Rightarrow> json
       \<Rightarrow> (error + py_instance) call" where
  "create_review_comment c self body commit_id path position =
     (let u = BuildUrl [''comments''] (pr_api self)
      in case py_int position of
           Inl e \<Rightarrow> ([], Inl e)
         | Inr n \<Rightarrow>
             (let data = [(''body'', body), (''commit_id'', commit_id), (''path'', path),
                          (''position'', JInt n)];
                  rq = \<lparr>rq_verb = POST, rq_url = u, rq_data = Dict data, rq_headers = []\<rparr>;
                  json = json_of (c rq) 201
              in ([rq], Inr (instance_or_null ''ReviewComment'' json))))"

definition diff :: "client \<Rightarrow> pull_request \<Rightarrow> string call" where
  "diff c self =
     (let rq = \<lparr>rq_verb = GET, rq_url = Url (pr_api self), rq_data = NoData,
                rq_headers = [(''Accept'', ''application/vnd.github.diff'')]\<rparr>;
          resp = c rq
      in ([rq], if boolean resp 200 404 then content resp else []))"

definition patch :: "client \<Rightarrow> pull_request \<Rightarrow> string call" where
  "patch c self =
     (let rq = \<lparr>rq_verb = GET, rq_url = Url (pr_api self), rq_data = NoData,
                rq_headers = [(''Accept'', ''application/vnd.github.patch'')]\<rparr>;
          resp = c rq
      in ([rq], if boolean resp 200 404 then content resp else []))"

definition is_merged :: "client \<Rightarrow> pull_request \<Rightarrow> json call" where
  "is_merged c self =
     (if truthy (pr_merged self) then ([], pr_merged self)
      else
        (let u = BuildUrl [''merge''] (pr_api self);
             rq = \<lparr>rq_verb = GET, rq_url = u, rq_data = NoData, rq_headers = []\<rparr>
         in ([rq], JBool (boolean (c rq) 204 404))))"

definition issue :: "client \<Rightarrow> pull_request \<Rightarrow> py_instance call" where
  "issue c self =
     (let rq = \<lparr>rq_verb = GET, rq_url = Url (pr_issue_url self),
                rq_data = NoData, rq_headers = []\<rparr>;
          json = json_of (c rq) 200
      in ([rq], instance_or_null ''Issue'' json))"

definition commits ::
    "client \<Rightarrow> pull_request \<Rightarrow> json \<Rightarrow> json \<Rightarrow> (error + github_iterator) call" where
  "commits c self number etag =
     (let u = BuildUrl [''commits''] (pr_api self)
      in ([], case py_int number of
                Inl e \<Rightarrow> Inl e
              | Inr n \<Rightarrow> Inr (iter n u ''RepoCommit'' etag [])))"

definition files ::
    "client \<Rightarrow> pull_request \<Rightarrow> json \<Rightarrow> json \<Rightarrow> (error + github_iterator) call" where
  "files c self number etag =
     (let u = BuildUrl [''files''] (pr_api self)
      in ([], case py_int number of
                Inl e \<Rightarrow> Inl e
              | Inr n \<Rightarrow> Inr (iter n u ''PullFile'' etag [])))"

text \<open>\<^verbatim>\<open>issue_comments\<close> reads \<^verbatim>\<open>self.links.get('comments', {})\<close> and then
  \<^verbatim>\<open>comments.get('href')\<close>; without a truthy \<^verbatim>\<open>href\<close> it builds the URL from
  \<^verbatim>\<open>self._api.replace('pulls', 'issues')\<close>. Each of the three raises
  \<^verbatim>\<open>AttributeError\<close> on a value of another type. \<^verbatim>\<open>int(number)\<close> is evaluated last, in
  the call of \<^verbatim>\<open>_iter\<close>.\<close>

definition issue_comments ::
    "client \<Rightarrow> pull_request \<Rightarrow> json \<Rightarrow> json \<Rightarrow> (error + github_iterator) call" where
  "issue_comments c self number etag =
     ([],
      (case py_get (pr_links self) ''comments'' (JObj []) of Inl e \<Rightarrow> Inl e | Inr comments \<Rightarrow>
      (case py_get comments ''href'' JNull of Inl e \<Rightarrow> Inl e | Inr href \<Rightarrow>
      (case (if \<not> truthy href
             then (case py_replace (pr_api self) ''pulls'' ''issues'' of
                     Inl e \<Rightarrow> Inl e
                   | Inr b \<Rightarrow> Inr (BuildUrl [''comments''] b))
             else Inr (Url href)) of Inl e \<Rightarrow> Inl e | Inr u \<Rightarrow>
      (case py_int number of Inl e \<Rightarrow> Inl e | Inr n \<Rightarrow>
         Inr (iter n u ''IssueComment'' etag []))))))"

definition merge ::
    "client \<Rightarrow> pull_request \<Rightarrow> json \<Rightarrow> json \<Rightarrow> json \<Rightarrow> (error + json) call" where
  "merge c self commit_message sha squash =
     (let parameters =
            [(''squash'', squash)]
            @ (if truthy sha then [(''sha'', sha)] else [])
            @ (if commit_message \<noteq> JNull then [(''commit_message'', commit_message)] else []);
          u = BuildUrl [''merge''] (pr_api self);
          rq = \<lparr>rq_verb = PUT, rq_url = u, rq_data = Dumps parameters, rq_headers = []\<rparr>;
          json = json_of (c rq) 200
      in ([rq], if \<not> truthy json then Inr (JBool False) else py_item json ''merged''))"

definition review_comments ::
    "client \<Rightarrow> pull_request \<Rightarrow> json \<Rightarrow> json \<Rightarrow> (error + github_iterator) call" where
  "review_comments c self number etag =
     (let u = BuildUrl [''comments''] (pr_api self)
      in ([], case py_int number of
                Inl e \<Rightarrow> Inl e
              | Inr n \<Rightarrow> Inr (iter n u ''ReviewComment'' etag [])))"

definition reviews ::
    "client \<Rightarrow> pull_request \<Rightarrow> json \<Rightarrow> json \<Rightarrow> (error + github_iterator) call" where
  "reviews c self number etag =
     (let hs = [(''Accept'', ''application/vnd.github.black-cat-preview+json'')];
          u = BuildUrl [''reviews''] (pr_api self)
      in ([], case py_int number of
                Inl e \<Rightarrow> Inl e
              | Inr n \<Rightarrow> Inr (iter n u ''PullReview'' etag hs)))"

subsection \<open>\<^verbatim>\<open>ReviewComment\<close>\<close>

text \<open>\<^verbatim>\<open>reply\<close> takes the text after the last \<^verbatim>\<open>'/'\<close> of \<^verbatim>\<open>self._api\<close> with \<^verbatim>\<open>rfind\<close> and
  a slice; \<^verbatim>\<open>rfind\<close> is a method of strings, and raises \<^verbatim>\<open>AttributeError\<close> on
  \<^verbatim>\<open>None\<close>.\<close>

definition reply :: "client \<Rightarrow> review_comment \<Rightarrow> json \<Rightarrow> (error + py_instance) call" where
  "reply c self body =
     (let u = BuildUrl [''comments''] (rc_pull_request_url self)
      in case rc_api self of
           JStr api \<Rightarrow>
             (let index = rfind api (CHR ''/'') + 1;
                  in_reply_to = slice_from api index;
                  rq = \<lparr>rq_verb = POST, rq_url = u,
                        rq_data = Dict [(''body'', body), (''in_reply_to'', JStr in_reply_to)],
                        rq_headers = []\<rparr>;
                  json = json_of (c rq) 201
              in ([rq], Inr (instance_or_null ''ReviewComment'' json)))
         | _ \<Rightarrow> ([], Inl AttributeError))"

subsection \<open>Equality\<close>

definition PullRequest_eq :: "pull_request \<Rightarrow> pull_request \<Rightarrow> bool" where
  \<comment> \<open>Modelled from the spec: \<^verbatim>\<open>__eq__\<close> is inherited from \<^verbatim>\<open>models.GitHubCore\<close>, missing
      from the sources. The docstring of \<^verbatim>\<open>PullRequest\<close> gives \<^verbatim>\<open>p1 == p2\<close> as
      \<^verbatim>\<open>p1.id == p2.id\<close>.\<close>
  "PullRequest_eq p1 p2 = py_eq (pr_id p1) (pr_id p2)"

definition PullRequest_ne :: "pull_request \<Rightarrow> pull_request \<Rightarrow> bool" where
  \<comment> \<open>Modelled from the spec: \<^verbatim>\<open>__ne__\<close> is inherited from \<^verbatim>\<open>models.GitHubCore\<close>, missing
      from the sources. The docstring of \<^verbatim>\<open>PullRequest\<close> gives \<^verbatim>\<open>p1 != p2\<close> as
      \<^verbatim>\<open>p1.id != p2.id\<close>.\<close>
  "PullRequest_ne p1 p2 = py_ne (pr_id p1) (pr_id p2)"

definition ReviewComment_eq :: "review_comment \<Rightarrow> review_comment \<Rightarrow> bool" where
  \<comment> \<open>Modelled from the spec: \<^verbatim>\<open>__eq__\<close> is inherited through \<^verbatim>\<open>models.BaseComment\<close>,
      missing from the sources. The docstring of \<^verbatim>\<open>ReviewComment\<close> gives \<^verbatim>\<open>c1 == c2\<close> as
      \<^verbatim>\<open>c1.id == c2.id\<close>.\<close>
  "ReviewComment_eq c1 c2 = py_eq (rc_id c1) (rc_id c2)"

definition ReviewComment_ne :: "review_comment \<Rightarrow> review_comment \<Rightarrow> bool" where
  \<comment> \<open>Modelled from the spec: \<^verbatim>\<open>__ne__\<close> is inherited through \<^verbatim>\<open>models.BaseComment\<close>,
      missing from the sources. The docstring of \<^verbatim>\<open>ReviewComment\<close> gives \<^verbatim>\<open>c1 != c2\<close> as
      \<^verbatim>\<open>c1.id != c2.id\<close>.\<close>
  "ReviewComment_ne c1 c2 = py_ne (rc_id c1) (rc_id c2)"

section \<open>Sample objects\<close>

text \<open>A pull request as the service sends it (shortened to the keys the methods
  read), the object built from it, and clients that answer every request alike.\<close>

definition sample_json :: json where
  "sample_json = JObj
     [(''url'', JStr ''https://api.github.com/repos/o/r/pulls/1''),
      (''id'', JInt 7),
      (''number'', JInt 1),
      (''title'', JStr ''Fix''),
      (''body'', JStr ''text''),
      (''state'', JStr ''open''),
      (''merged'', JBool False),
      (''issue_url'', JStr ''https://api.github.com/repos/o/r/issues/1''),
      (''comments_url'', JStr ''https://api.github.com/repos/o/r/issues/1/comments''),
      (''base'', JObj [(''ref'', JStr ''master''), (''label'', JStr ''o:master''),
                       (''repo'', JObj [(''name'', JStr ''r''),
                                        (''owner'', JObj [(''login'', JStr ''o'')])])]),
      (''_links'', JObj [(''comments'',
          JObj [(''href'', JStr ''https://api.github.com/repos/o/r/issues/1/comments'')])])]"

definition sample_pull :: pull_request where
  "sample_pull = projr (PullRequest_update_attributes sample_json)"

definition bare_pull :: pull_request where
  "bare_pull = projr (PullRequest_update_attributes
     (JObj [(''url'', JStr ''https://api.github.com/repos/o/r/pulls/1'')]))"

definition anon_pull :: pull_request where
  "anon_pull = projr (PullRequest_update_attributes (JObj [(''id'', JInt 1)]))"

definition answer :: "int \<Rightarrow> string \<Rightarrow> json \<Rightarrow> client" where
  "answer code raw j = (\<lambda>rq. \<lparr>status_code = code, content = raw, decoded = j\<rparr>)"

section \<open>Facts about the constructors and the sample objects\<close>

lemma sample_pull_built: "PullRequest_update_attributes sample_json = Inr sample_pull"
  by (simp add: sample_pull_def sample_json_def PullRequest_update_attributes_def
      destination_attribute_def class_attribute_def get_attribute_def dict_get_def
      strptime_attribute_def)

lemma PullRequest_fields:
  assumes "PullRequest_update_attributes pull = Inr p"
  shows "pr_api p = get_attribute pull ''url'' JNull"
    and "pr_body p = get_attribute pull ''body'' JNull"
    and "pr_body_html p = get_attribute pull ''body_html'' JNull"
    and "pr_body_text p = get_attribute pull ''body_text'' JNull"
    and "pr_additions_count p = get_attribute pull ''additions'' JNull"
    and "pr_deletions_count p = get_attribute pull ''deletions'' JNull"
    and "pr_closed_at p = strptime_attribute pull ''closed_at''"
    and "pr_comments_count p = get_attribute pull ''comments'' JNull"
    and "pr_comments_url p = get_attribute pull ''comments_url'' JNull"
    and "pr_commits_count p = get_attribute pull ''commits'' JNull"
    and "pr_commits_url p = get_attribute pull ''commits_url'' JNull"
    and "pr_created_at p = strptime_attribute pull ''created_at''"
    and "pr_diff_url p = get_attribute pull ''diff_url'' JNull"
    and "pr_html_url p = get_attribute pull ''html_url'' JNull"
    and "pr_id p = get_attribute pull ''id'' JNull"
    and "pr_issue_url p = get_attribute pull ''issue_url'' JNull"
    and "pr_statuses_url p = get_attribute pull ''statuses_url'' JNull"
    and "pr_links p = get_attribute pull ''_links'' (JObj [])"
    and "pr_merged p = get_attribute pull ''merged'' JNull"
    and "pr_merged_at p = strptime_attribute pull ''merged_at''"
    and "pr_mergeable p = get_attribute pull ''mergeable'' (JBool False)"
    and "pr_mergeable_state p = get_attribute pull ''mergeable_state'' JNull"
    and "pr_merged_by p = class_attribute pull ''merged_by'' (Instance ''User'')"
    and "pr_number p = get_attribute pull ''number'' JNull"
    and "pr_patch_url p = get_attribute pull ''patch_url'' JNull"
    and "pr_review_comment_url p =
           class_attribute pull ''review_comment_url'' (Instance ''URITemplate'')"
    and "pr_review_comments_count p = get_attribute pull ''review_comments'' JNull"
    and "pr_review_comments_url p = get_attribute pull ''review_comments_url'' JNull"
    and "pr_state p = get_attribute pull ''state'' JNull"
    and "pr_title p = get_attribute pull ''title'' JNull"
    and "pr_updated_at p = strptime_attribute pull ''updated_at''"
    and "pr_user p = class_attribute pull ''user'' (Instance ''User'')"
    and "pr_assignee p = class_attribute pull ''assignee'' (Instance ''User'')"
    and "destination_attribute pull ''base'' ''Base'' = Inr (pr_base p)"
    and "destination_attribute pull ''head'' ''Head'' = Inr (pr_head p)"
    and "pr_repository p = (case pr_base p of Built d \<Rightarrow> Built (pd_repo d) | Plain v \<Rightarrow> Plain v)"
  using assms
  by (auto simp add: PullRequest_update_attributes_def split: sum.splits)

lemma sample_pull_merged: "pr_merged sample_pull = JBool False"
  by (simp add: PullRequest_fields(19) [OF sample_pull_built] sample_json_def
      get_attribute_def dict_get_def)

lemma sample_pull_links:
  "pr_links sample_pull = JObj [(''comments'',
     JObj [(''href'', JStr ''https://api.github.com/repos/o/r/issues/1/comments'')])]"
  by (simp add: PullRequest_fields(18) [OF sample_pull_built] sample_json_def
      get_attribute_def dict_get_def)

lemma bare_pull_built:
  "PullRequest_update_attributes (JObj [(''url'', JStr ''https://api.github.com/repos/o/r/pulls/1'')])
     = Inr bare_pull"
  by (simp add: bare_pull_def PullRequest_update_attributes_def
      destination_attribute_def class_attribute_def get_attribute_def dict_get_def
      strptime_attribute_def)

lemma anon_pull_built:
  "PullRequest_update_attributes (JObj [(''id'', JInt 1)]) = Inr anon_pull"
  by (simp add: anon_pull_def PullRequest_update_attributes_def
      destination_attribute_def class_attribute_def get_attribute_def dict_get_def
      strptime_attribute_def)

lemma anon_pull_links: "pr_links anon_pull = JObj []"
  by (simp add: PullRequest_fields(18) [OF anon_pull_built] get_attribute_def dict_get_def)

lemma anon_pull_api: "pr_api anon_pull = JNull"
  by (simp add: PullRequest_fields(1) [OF anon_pull_built] get_attribute_def dict_get_def)

lemma bare_pull_links: "pr_links bare_pull = JObj []"
  by (simp add: PullRequest_fields(18) [OF bare_pull_built] get_attribute_def dict_get_def)

lemma bare_pull_api: "pr_api bare_pull = JStr ''https://api.github.com/repos/o/r/pulls/1''"
  by (simp add: PullRequest_fields(1) [OF bare_pull_built] get_attribute_def dict_get_def)

lemma replace_sample:
  "str_replace ''pulls'' ''issues'' ''https://api.github.com/repos/o/r/pulls/1''
     = ''https://api.github.com/repos/o/r/issues/1''"
  by simp

lemma sample_pull_urls:
  "pr_api sample_pull = JStr ''https://api.github.com/repos/o/r/pulls/1''"
  "pr_issue_url sample_pull = JStr ''https://api.github.com/repos/o/r/issues/1''"
  "pr_comments_url sample_pull = JStr ''https://api.github.com/repos/o/r/issues/1/comments''"
  by (simp_all add: PullRequest_fields(1,9,16) [OF sample_pull_built] sample_json_def
      get_attribute_def dict_get_def)

lemma sample_json_truthy: "truthy sample_json"
  by (simp add: sample_json_def)

lemma sample_json_urls:
  "get_attribute sample_json ''issue_url'' JNull =
     JStr ''https://api.github.com/repos/o/r/issues/1''"
  "get_attribute sample_json ''comments_url'' JNull =
     JStr ''https://api.github.com/repos/o/r/issues/1/comments''"
  by (simp_all add: sample_json_def get_attribute_def dict_get_def)

text \<open>The payload of \<^verbatim>\<open>update\<close> holds a key exactly when its argument is not \<^verbatim>\<open>None\<close>.\<close>

lemma update_payload_keys:
  "map_of (filter (\<lambda>(k, v). v \<noteq> JNull)
      [(''title'', title), (''body'', body), (''state'', state)]) k =
   (if k = ''title'' \<and> title \<noteq> JNull then Some title
    else if k = ''body'' \<and> body \<noteq> JNull then Some body
    else if k = ''state'' \<and> state \<noteq> JNull then Some state
    else None)"
  by simp

text \<open>The helpers on a wire object, and what a built destination holds.\<close>

lemma get_attribute_obj: "get_attribute (JObj d) k dflt = dict_get d k dflt"
  by (simp add: get_attribute_def)

lemma class_attribute_obj:
  "class_attribute (JObj d) k cl =
     (if truthy (dict_get d k JNull) then Built (cl (dict_get d k JNull))
      else Plain (dict_get d k JNull))"
  by (simp add: class_attribute_def get_attribute_def Let_def)

lemma destination_attribute_obj:
  assumes "destination_attribute (JObj d) k direction = Inr a"
  shows "case a of
           Built dst \<Rightarrow> truthy (dict_get d k JNull)
             \<and> PullDestination (dict_get d k JNull) direction = Inr dst
         | Plain v \<Rightarrow> \<not> truthy v \<and> v = dict_get d k JNull"
  using assms
  by (auto simp add: destination_attribute_def class_attribute_obj
      split: if_splits sum.splits class_attr.splits)

lemma PullDestination_fields:
  assumes "PullDestination (JObj d) direction = Inr dst"
  shows "pd_direction dst = direction"
    and "pd_ref dst = dict_get d ''ref'' JNull"
    and "pd_label dst = dict_get d ''label'' JNull"
    and "pd_sha dst = dict_get d ''sha'' JNull"
    and "pd_user dst =
           (if truthy (dict_get d ''user'' JNull)
            then Built (Instance ''User'' (dict_get d ''user'' JNull)) else Plain JNull)"
  using assms
  by (auto simp add: Let_def split: if_splits sum.splits)

text \<open>Conversions of sample counts.\<close>

lemma py_int_samples:
  "py_int (JStr '' 30 '') = Inr 30"
  "py_int (JBool True) = Inr 1"
  "py_int (JInt (- 1)) = Inr (- 1)"
  "py_int JNull = Inl TypeError"
  "py_int (JStr ''x'') = Inl ValueError"
  by (simp_all add: parse_int_def py_strip_def is_space_def parse_unsigned_def digit_of_def)

text \<open>
  A method that sends one request and computes its result from the response alone:
  the request and the decoding function do not depend on the client.
\<close>

lemma one_request:
  assumes "\<And>c. run c = ([rq], dec (c rq))"
  shows "\<exists>rq dec. \<forall>c. run c = ([rq], dec (c rq))"
  using assms by blast

lemma contents_decodes:
  "\<exists>rq dec. \<forall>c. contents c f = ([rq], dec (c rq))"
  by (rule one_request [where rq = "\<lparr>rq_verb = GET, rq_url = Url (pf_contents_url f), rq_data = NoData, rq_headers = []\<rparr>"
      and dec = "\<lambda>r. instance_or_null ''Contents'' (json_of r 200)"])
    (simp add: contents_def Let_def)

lemma update_decodes:
  assumes "\<not> (title = JNull \<and> body = JNull \<and> state = JNull)"
  shows "\<exists>rq dec. \<forall>c. update c p title body state = ([rq], dec (c rq))"
  by (rule one_request [where rq = "\<lparr>rq_verb = PATCH, rq_url = Url (pr_api p), rq_data = Dumps (remove_none [(''title'', title), (''body'', body), (''state'', state)]), rq_headers = []\<rparr>"
      and dec = "\<lambda>r. if truthy (json_of r 200) then (case PullRequest_update_attributes (json_of r 200) of Inl e \<Rightarrow> Inl e | Inr self' \<Rightarrow> Inr (self', True)) else Inr (p, False)"])
    (use assms in \<open>auto simp add: update_def remove_none_def Let_def\<close>)

lemma close_decodes:
  "\<exists>rq dec. \<forall>c. close c p = ([rq], dec (c rq))"
  by (rule one_request [where rq = "\<lparr>rq_verb = PATCH, rq_url = Url (pr_api p), rq_data = Dumps (remove_none [(''title'', pr_title p), (''body'', pr_body p), (''state'', JStr ''closed'')]), rq_headers = []\<rparr>"
      and dec = "\<lambda>r. if truthy (json_of r 200) then (case PullRequest_update_attributes (json_of r 200) of Inl e \<Rightarrow> Inl e | Inr self' \<Rightarrow> Inr (self', True)) else Inr (p, False)"])
    (auto simp add: close_def update_def remove_none_def Let_def)

lemma reopen_decodes:
  "\<exists>rq dec. \<forall>c. reopen c p = ([rq], dec (c rq))"
  by (rule one_request [where rq = "\<lparr>rq_verb = PATCH, rq_url = Url (pr_api p), rq_data = Dumps (remove_none [(''title'', pr_title p), (''body'', pr_body p), (''state'', JStr ''open'')]), rq_headers = []\<rparr>"
      and dec = "\<lambda>r. if truthy (json_of r 200) then (case PullRequest_update_attributes (json_of r 200) of Inl e \<Rightarrow> Inl e | Inr self' \<Rightarrow> Inr (self', True)) else Inr (p, False)"])
    (auto simp add: reopen_def update_def remove_none_def Let_def)

lemma create_comment_decodes:
  assumes "truthy body"
  shows "\<exists>rq dec. \<forall>c. create_comment c p body = ([rq], dec (c rq))"
  by (rule one_request [where rq = "\<lparr>rq_verb = POST, rq_url = Url (pr_comments_url p), rq_data = Dict [(''body'', body)], rq_headers = []\<rparr>"
      and dec = "\<lambda>r. instance_or_null ''IssueComment'' (json_of r 201)"])
    (use assms in \<open>simp add: create_comment_def Let_def\<close>)

lemma create_review_comment_decodes:
  assumes "py_int position = Inr n"
  shows "\<exists>rq dec. \<forall>c. create_review_comment c p body commit_id path position = ([rq], dec (c rq))"
  by (rule one_request [where rq = "\<lparr>rq_verb = POST, rq_url = BuildUrl [''comments''] (pr_api p), rq_data = Dict [(''body'', body), (''commit_id'', commit_id), (''path'', path), (''position'', JInt n)], rq_headers = []\<rparr>"
      and dec = "\<lambda>r. Inr (instance_or_null ''ReviewComment'' (json_of r 201))"])
    (use assms in \<open>simp add: create_review_comment_def Let_def\<close>)

lemma diff_decodes:
  "\<exists>rq dec. \<forall>c. diff c p = ([rq], dec (c rq))"
  by (rule one_request [where rq = "\<lparr>rq_verb = GET, rq_url = Url (pr_api p), rq_data = NoData, rq_headers = [(''Accept'', ''application/vnd.github.diff'')]\<rparr>"
      and dec = "\<lambda>r. if boolean r 200 404 then content r else []"])
    (simp add: diff_def Let_def)

lemma patch_decodes:
  "\<exists>rq dec. \<forall>c. patch c p = ([rq], dec (c rq))"
  by (rule one_request [where rq = "\<lparr>rq_verb = GET, rq_url = Url (pr_api p), rq_data = NoData, rq_headers = [(''Accept'', ''application/vnd.github.patch'')]\<rparr>"
      and dec = "\<lambda>r. if boolean r 200 404 then content r else []"])
    (simp add: patch_def Let_def)

lemma is_merged_decodes:
  assumes "\<not> truthy (pr_merged p)"
  shows "\<exists>rq dec. \<forall>c. is_merged c p = ([rq], dec (c rq))"
  by (rule one_request [where rq = "\<lparr>rq_verb = GET, rq_url = BuildUrl [''merge''] (pr_api p), rq_data = NoData, rq_headers = []\<rparr>"
      and dec = "\<lambda>r. JBool (boolean r 204 404)"])
    (use assms in \<open>simp add: is_merged_def Let_def\<close>)

lemma issue_decodes:
  "\<exists>rq dec. \<forall>c. issue c p = ([rq], dec (c rq))"
  by (rule one_request [where rq = "\<lparr>rq_verb = GET, rq_url = Url (pr_issue_url p), rq_data = NoData, rq_headers = []\<rparr>"
      and dec = "\<lambda>r. instance_or_null ''Issue'' (json_of r 200)"])
    (simp add: issue_def Let_def)

lemma merge_decodes:
  "\<exists>rq dec. \<forall>c. merge c p commit_message sha squash = ([rq], dec (c rq))"
  by (rule one_request [where rq = "\<lparr>rq_verb = PUT, rq_url = BuildUrl [''merge''] (pr_api p), rq_data = Dumps ([(''squash'', squash)] @ (if truthy sha then [(''sha'', sha)] else []) @ (if commit_message \<noteq> JNull then [(''commit_message'', commit_message)] else [])), rq_headers = []\<rparr>"
      and dec = "\<lambda>r. if \<not> truthy (json_of r 200) then Inr (JBool False) else py_item (json_of r 200) ''merged''"])
    (simp add: merge_def Let_def)

lemma reply_decodes:
  assumes "rc_api r = JStr a"
  shows "\<exists>rq dec. \<forall>c. reply c r body = ([rq], dec (c rq))"
  by (rule one_request [where rq = "\<lparr>rq_verb = POST, rq_url = BuildUrl [''comments''] (rc_pull_request_url r), rq_data = Dict [(''body'', body), (''in_reply_to'', JStr (slice_from a (rfind a (CHR ''/'') + 1)))], rq_headers = []\<rparr>"
      and dec = "\<lambda>resp. Inr (instance_or_null ''ReviewComment'' (json_of resp 201))"])
    (use assms in \<open>simp add: reply_def Let_def\<close>)

section \<open>The claims\<close>

text \<open>
  C9. Calling \<^verbatim>\<open>PullRequest.update\<close> with title, body and state all \<^verbatim>\<open>None\<close> sends no
  HTTP request, returns \<^verbatim>\<open>False\<close>, and leaves every attribute of the pull request as it
  was: the list of requests is empty and the object returned is the object given.
\<close>

theorem C9_update_nothing:
  "update c self JNull JNull JNull = ([], Inr (self, False))"
  by (simp add: update_def remove_none_def)

text \<open>
  C7. For every pull request, \<^verbatim>\<open>diff()\<close> and \<^verbatim>\<open>patch()\<close> each send a single GET to the
  pull request's API URL with the \<^verbatim>\<open>Accept\<close> header \<^verbatim>\<open>application/vnd.github.diff\<close>
  (respectively \<^verbatim>\<open>application/vnd.github.patch\<close>), and return the raw body of the
  response when its status is 200 and the empty bytestring otherwise.
\<close>

theorem C7_diff_patch:
  "diff c self =
     ([\<lparr>rq_verb = GET, rq_url = Url (pr_api self), rq_data = NoData,
        rq_headers = [(''Accept'', ''application/vnd.github.diff'')]\<rparr>],
      if status_code (c \<lparr>rq_verb = GET, rq_url = Url (pr_api self), rq_data = NoData,
           rq_headers = [(''Accept'', ''application/vnd.github.diff'')]\<rparr>) = 200
      then content (c \<lparr>rq_verb = GET, rq_url = Url (pr_api self), rq_data = NoData,
           rq_headers = [(''Accept'', ''application/vnd.github.diff'')]\<rparr>)
      else [])
   \<and> patch c self =
     ([\<lparr>rq_verb = GET, rq_url = Url (pr_api self), rq_data = NoData,
        rq_headers = [(''Accept'', ''application/vnd.github.patch'')]\<rparr>],
      if status_code (c \<lparr>rq_verb = GET, rq_url = Url (pr_api self), rq_data = NoData,
           rq_headers = [(''Accept'', ''application/vnd.github.patch'')]\<rparr>) = 200
      then content (c \<lparr>rq_verb = GET, rq_url = Url (pr_api self), rq_data = NoData,
           rq_headers = [(''Accept'', ''application/vnd.github.patch'')]\<rparr>)
      else [])"
  by (simp add: diff_def patch_def boolean_def Let_def)

text \<open>
  C10. Whenever the \<^verbatim>\<open>merged\<close> attribute of a pull request is truthy, \<^verbatim>\<open>is_merged()\<close>
  returns that attribute and sends no HTTP request; when it is falsy, the method sends
  one GET to the pull request's \<^verbatim>\<open>merge\<close> sub-URL and returns \<^verbatim>\<open>True\<close> exactly when the
  status of the response is 204 (so \<^verbatim>\<open>False\<close> on 404).
\<close>

theorem C10_is_merged:
  "(truthy (pr_merged self) \<longrightarrow> is_merged c self = ([], pr_merged self))
   \<and> (\<not> truthy (pr_merged self) \<longrightarrow>
        is_merged c self =
          ([\<lparr>rq_verb = GET, rq_url = BuildUrl [''merge''] (pr_api self),
             rq_data = NoData, rq_headers = []\<rparr>],
           JBool (status_code (c \<lparr>rq_verb = GET, rq_url = BuildUrl [''merge''] (pr_api self),
             rq_data = NoData, rq_headers = []\<rparr>) = 204)))"
  by (simp add: is_merged_def boolean_def Let_def)

theorem C10_is_merged_witness:
  "truthy (pr_merged (sample_pull\<lparr>pr_merged := JBool True\<rparr>))
   \<and> is_merged (answer 404 [] JNull) (sample_pull\<lparr>pr_merged := JBool True\<rparr>) = ([], JBool True)
   \<and> \<not> truthy (pr_merged sample_pull)
   \<and> snd (is_merged (answer 204 [] JNull) sample_pull) = JBool True
   \<and> snd (is_merged (answer 404 [] JNull) sample_pull) = JBool False
   \<and> length (fst (is_merged (answer 404 [] JNull) sample_pull)) = 1"
  using C10_is_merged [of "sample_pull\<lparr>pr_merged := JBool True\<rparr>" "answer 404 [] JNull"]
    C10_is_merged [of sample_pull "answer 204 [] JNull"]
    C10_is_merged [of sample_pull "answer 404 [] JNull"]
  by (simp add: sample_pull_merged answer_def)

text \<open>
  C4, as amended. Follow-on operations address the service through URLs the object
  took from the wire JSON: \<^verbatim>\<open>PullFile.contents()\<close> sends a GET to the stored
  \<^verbatim>\<open>contents_url\<close> and decodes a 200 response into a \<^verbatim>\<open>Contents\<close>; \<^verbatim>\<open>PullRequest.issue()\<close>
  sends a GET to the stored \<^verbatim>\<open>issue_url\<close> and decodes a 200 response into an \<^verbatim>\<open>Issue\<close>;
  \<^verbatim>\<open>PullRequest.create_comment(body)\<close> with a truthy body sends a POST with that body to
  the stored \<^verbatim>\<open>comments_url\<close> and decodes a 201 response into an \<^verbatim>\<open>IssueComment\<close>; with a
  falsy (empty) body it sends nothing and returns the null object. The claim as
  stated, that \<^verbatim>\<open>create_comment(body)\<close> performs a POST, fails on the empty body.
\<close>

theorem C4_follow_on_urls:
  "contents c (PullFile_update_attributes pfile) =
     ([\<lparr>rq_verb = GET, rq_url = Url (get_attribute pfile ''contents_url'' JNull),
        rq_data = NoData, rq_headers = []\<rparr>],
      instance_or_null ''Contents''
        (json_of (c \<lparr>rq_verb = GET, rq_url = Url (get_attribute pfile ''contents_url'' JNull),
                     rq_data = NoData, rq_headers = []\<rparr>) 200))
   \<and> (PullRequest_update_attributes pull = Inr p \<longrightarrow>
        issue c p =
          ([\<lparr>rq_verb = GET, rq_url = Url (get_attribute pull ''issue_url'' JNull),
             rq_data = NoData, rq_headers = []\<rparr>],
           instance_or_null ''Issue''
             (json_of (c \<lparr>rq_verb = GET, rq_url = Url (get_attribute pull ''issue_url'' JNull),
                          rq_data = NoData, rq_headers = []\<rparr>) 200)))
   \<and> (PullRequest_update_attributes pull = Inr p \<and> truthy body \<longrightarrow>
        create_comment c p body =
          ([\<lparr>rq_verb = POST, rq_url = Url (get_attribute pull ''comments_url'' JNull),
             rq_data = Dict [(''body'', body)], rq_headers = []\<rparr>],
           instance_or_null ''IssueComment''
             (json_of (c \<lparr>rq_verb = POST, rq_url = Url (get_attribute pull ''comments_url'' JNull),
                          rq_data = Dict [(''body'', body)], rq_headers = []\<rparr>) 201)))
   \<and> (\<not> truthy body \<longrightarrow> create_comment c p body = ([], NullObject ''IssueComment''))"
  by (auto simp add: contents_def issue_def create_comment_def PullFile_update_attributes_def
      PullRequest_fields(9,16) instance_or_null_def Let_def)

theorem C4_follow_on_urls_witness:
  "PullRequest_update_attributes sample_json = Inr sample_pull
   \<and> truthy (JStr ''hello'')
   \<and> issue (answer 200 [] (JObj [(''number'', JInt 1)])) sample_pull =
       ([\<lparr>rq_verb = GET, rq_url = Url (JStr ''https://api.github.com/repos/o/r/issues/1''),
          rq_data = NoData, rq_headers = []\<rparr>],
        Instance ''Issue'' (JObj [(''number'', JInt 1)]))
   \<and> create_comment (answer 201 [] (JObj [(''id'', JInt 9)])) sample_pull (JStr ''hello'') =
       ([\<lparr>rq_verb = POST,
          rq_url = Url (JStr ''https://api.github.com/repos/o/r/issues/1/comments''),
          rq_data = Dict [(''body'', JStr ''hello'')], rq_headers = []\<rparr>],
        Instance ''IssueComment'' (JObj [(''id'', JInt 9)]))
   \<and> \<not> truthy JNull
   \<and> create_comment (answer 201 [] (JObj [(''id'', JInt 9)])) sample_pull JNull =
       ([], NullObject ''IssueComment'')"
  using C4_follow_on_urls [of "answer 200 [] (JObj [(''number'', JInt 1)])" JNull
      sample_json sample_pull "JStr ''hello''"]
    C4_follow_on_urls [of "answer 201 [] (JObj [(''id'', JInt 9)])" JNull
      sample_json sample_pull "JStr ''hello''"]
    C4_follow_on_urls [of "answer 201 [] (JObj [(''id'', JInt 9)])" JNull
      sample_json sample_pull JNull]
  by (simp add: sample_pull_built sample_json_urls
      answer_def json_of_def boolean_def instance_or_null_def)

theorem C4_counterexample:
  "create_comment (answer 201 [] (JObj [(''id'', JInt 9)])) sample_pull (JStr []) =
     ([], NullObject ''IssueComment'')"
  by (simp add: create_comment_def instance_or_null_def)

text \<open>
  C8. For every two pull requests \<open>p1\<close> and \<open>p2\<close>, \<^verbatim>\<open>p1 == p2\<close> holds exactly when
  \<^verbatim>\<open>p1.id == p2.id\<close>, and \<^verbatim>\<open>p1 != p2\<close> exactly when \<^verbatim>\<open>p1.id != p2.id\<close>; the same law holds
  for every two review comments. The comparison methods are inherited from a class
  that is not among the sources and are modelled from the class docstrings.
\<close>

theorem C8_equality_by_id:
  "PullRequest_eq p1 p2 = py_eq (pr_id p1) (pr_id p2)
   \<and> PullRequest_ne p1 p2 = (\<not> py_eq (pr_id p1) (pr_id p2))
   \<and> PullRequest_ne p1 p2 = (\<not> PullRequest_eq p1 p2)
   \<and> ReviewComment_eq c1 c2 = py_eq (rc_id c1) (rc_id c2)
   \<and> ReviewComment_ne c1 c2 = (\<not> py_eq (rc_id c1) (rc_id c2))
   \<and> ReviewComment_ne c1 c2 = (\<not> ReviewComment_eq c1 c2)"
  by (simp add: PullRequest_eq_def PullRequest_ne_def ReviewComment_eq_def
      ReviewComment_ne_def py_ne_def)

text \<open>
  C5, as amended. For every combination of title, body and state with at least one of
  them not \<^verbatim>\<open>None\<close>, \<^verbatim>\<open>PullRequest.update\<close> sends a single PATCH to the pull request's API
  URL whose payload holds exactly the fields that are not \<^verbatim>\<open>None\<close>. If the response has
  status 200 and decodes to a truthy value (a non-empty object) from which the
  attributes can be built, the object's attributes are those of the response and the
  call returns \<^verbatim>\<open>True\<close>; if the status is not 200 or the decoded value is falsy (null, or
  the empty object), the call returns \<^verbatim>\<open>False\<close> and leaves the object as it was. The
  claim as stated, that every non-null JSON object at status 200 gives \<^verbatim>\<open>True\<close>, fails
  on the empty object.
\<close>

theorem C5_update:
  "\<not> (title = JNull \<and> body = JNull \<and> state = JNull)
   \<and> rq = \<lparr>rq_verb = PATCH, rq_url = Url (pr_api self),
            rq_data = Dumps (filter (\<lambda>(k, v). v \<noteq> JNull)
                        [(''title'', title), (''body'', body), (''state'', state)]),
            rq_headers = []\<rparr>
   \<longrightarrow>
     fst (update c self title body state) = [rq]
     \<and> (status_code (c rq) = 200 \<and> truthy (decoded (c rq))
          \<and> PullRequest_update_attributes (decoded (c rq)) = Inr self'
          \<longrightarrow> snd (update c self title body state) = Inr (self', True))
     \<and> (status_code (c rq) \<noteq> 200 \<or> \<not> truthy (decoded (c rq))
          \<longrightarrow> snd (update c self title body state) = Inr (self, False))"
  by (auto simp add: update_def remove_none_def json_of_def boolean_def Let_def)

theorem C5_update_witness:
  "\<not> (JStr ''New'' = JNull \<and> JNull = JNull \<and> JNull = JNull)
   \<and> fst (update (answer 200 [] sample_json) sample_pull (JStr ''New'') JNull JNull) =
       [\<lparr>rq_verb = PATCH, rq_url = Url (JStr ''https://api.github.com/repos/o/r/pulls/1''),
          rq_data = Dumps [(''title'', JStr ''New'')], rq_headers = []\<rparr>]
   \<and> truthy sample_json
   \<and> PullRequest_update_attributes sample_json = Inr sample_pull
   \<and> snd (update (answer 200 [] sample_json) bare_pull (JStr ''New'') JNull JNull) =
       Inr (sample_pull, True)
   \<and> snd (update (answer 404 [] JNull) bare_pull JNull JNull (JStr ''closed'')) =
       Inr (bare_pull, False)"
  using C5_update [of "JStr ''New''" JNull JNull _ sample_pull "answer 200 [] sample_json" sample_pull]
    C5_update [of "JStr ''New''" JNull JNull _ bare_pull "answer 200 [] sample_json" sample_pull]
    C5_update [of JNull JNull "JStr ''closed''" _ bare_pull "answer 404 [] JNull" sample_pull]
  by (simp add: sample_pull_built sample_json_truthy sample_pull_urls answer_def)

theorem C5_counterexample:
  "JObj [] \<noteq> JNull
   \<and> update (answer 200 ''{}'' (JObj [])) sample_pull (JStr ''New'') JNull JNull =
       ([\<lparr>rq_verb = PATCH, rq_url = Url (JStr ''https://api.github.com/repos/o/r/pulls/1''),
          rq_data = Dumps [(''title'', JStr ''New'')], rq_headers = []\<rparr>],
        Inr (sample_pull, False))"
  by (simp add: update_def remove_none_def json_of_def boolean_def answer_def sample_pull_urls)

text \<open>
  C2, as amended. Each of the five record types \<^verbatim>\<open>PullRequest\<close>, \<^verbatim>\<open>PullDestination\<close>,
  \<^verbatim>\<open>PullFile\<close>, \<^verbatim>\<open>PullReview\<close> and \<^verbatim>\<open>ReviewComment\<close> is built from a wire object by its
  attribute-mapping constructor, which fills each documented field from the
  corresponding key of that object: the value itself, the \<^verbatim>\<open>datetime\<close> parsed from it, or
  the object of the field's class built from it; a missing key gives the field's null
  or default value (\<^verbatim>\<open>{}\<close> for \<^verbatim>\<open>links\<close>, \<^verbatim>\<open>False\<close> for \<^verbatim>\<open>mergeable\<close>). Two documented fields
  are not read from a key: \<^verbatim>\<open>PullDestination.direction\<close> is the second argument of the
  constructor, and \<^verbatim>\<open>PullRequest.repository\<close> is the \<^verbatim>\<open>repo\<close> pair of the base destination,
  or the falsy base value when no base was built. The claim as stated, that each
  documented field comes from the corresponding key, fails on these two.
\<close>

theorem C2_from_wire:
  "(pf_sha (PullFile_update_attributes (JObj d)) = dict_get d ''sha'' JNull
    \<and> pf_filename (PullFile_update_attributes (JObj d)) = dict_get d ''filename'' JNull
    \<and> pf_status (PullFile_update_attributes (JObj d)) = dict_get d ''status'' JNull
    \<and> pf_additions_count (PullFile_update_attributes (JObj d)) = dict_get d ''additions'' JNull
    \<and> pf_deletions_count (PullFile_update_attributes (JObj d)) = dict_get d ''deletions'' JNull
    \<and> pf_changes_count (PullFile_update_attributes (JObj d)) = dict_get d ''changes'' JNull
    \<and> pf_blob_url (PullFile_update_attributes (JObj d)) = dict_get d ''blob_url'' JNull
    \<and> pf_raw_url (PullFile_update_attributes (JObj d)) = dict_get d ''raw_url'' JNull
    \<and> pf_patch (PullFile_update_attributes (JObj d)) = dict_get d ''patch'' JNull
    \<and> pf_contents_url (PullFile_update_attributes (JObj d)) = dict_get d ''contents_url'' JNull)
   \<and> (rv_id (PullReview_update_attributes (JObj d)) = dict_get d ''id'' JNull
    \<and> rv_commit_id (PullReview_update_attributes (JObj d)) = dict_get d ''commit_id'' JNull
    \<and> rv_user (PullReview_update_attributes (JObj d)) = class_attribute (JObj d) ''user'' (Instance ''User'')
    \<and> rv_state (PullReview_update_attributes (JObj d)) = dict_get d ''state'' JNull
    \<and> rv_created_at (PullReview_update_attributes (JObj d)) = strptime_attribute (JObj d) ''created_at''
    \<and> rv_body (PullReview_update_attributes (JObj d)) = dict_get d ''body'' JNull
    \<and> rv_pull_request_url (PullReview_update_attributes (JObj d)) = dict_get d ''pull_request_url'' JNull)
   \<and> (rc_user (ReviewComment_update_attributes self (JObj d)) = class_attribute (JObj d) ''user'' (Instance ''User'')
      \<and> rc_original_position (ReviewComment_update_attributes self (JObj d)) = dict_get d ''original_position'' JNull
      \<and> rc_path (ReviewComment_update_attributes self (JObj d)) = dict_get d ''path'' JNull
      \<and> rc_position (ReviewComment_update_attributes self (JObj d)) = dict_get d ''position'' JNull
      \<and> rc_commit_id (ReviewComment_update_attributes self (JObj d)) = dict_get d ''commit_id'' JNull
      \<and> rc_diff_hunk (ReviewComment_update_attributes self (JObj d)) = dict_get d ''diff_hunk'' JNull
      \<and> rc_original_commit_id (ReviewComment_update_attributes self (JObj d)) = dict_get d ''original_commit_id'' JNull
      \<and> rc_pull_request_url (ReviewComment_update_attributes self (JObj d)) = dict_get d ''pull_request_url'' JNull
      \<and> rc_api (ReviewComment_update_attributes self (JObj d)) = rc_api self
      \<and> rc_id (ReviewComment_update_attributes self (JObj d)) = rc_id self)
   \<and> (PullRequest_update_attributes (JObj d) = Inr p \<longrightarrow>
        pr_api p = dict_get d ''url'' JNull
      \<and> pr_body p = dict_get d ''body'' JNull
      \<and> pr_body_html p = dict_get d ''body_html'' JNull
      \<and> pr_body_text p = dict_get d ''body_text'' JNull
      \<and> pr_additions_count p = dict_get d ''additions'' JNull
      \<and> pr_deletions_count p = dict_get d ''deletions'' JNull
      \<and> pr_closed_at p = strptime_attribute (JObj d) ''closed_at''
      \<and> pr_comments_count p = dict_get d ''comments'' JNull
      \<and> pr_comments_url p = dict_get d ''comments_url'' JNull
      \<and> pr_commits_count p = dict_get d ''commits'' JNull
      \<and> pr_commits_url p = dict_get d ''commits_url'' JNull
      \<and> pr_created_at p = strptime_attribute (JObj d) ''created_at''
      \<and> pr_diff_url p = dict_get d ''diff_url'' JNull
      \<and> pr_html_url p = dict_get d ''html_url'' JNull
      \<and> pr_id p = dict_get d ''id'' JNull
      \<and> pr_issue_url p = dict_get d ''issue_url'' JNull
      \<and> pr_statuses_url p = dict_get d ''statuses_url'' JNull
      \<and> pr_links p = dict_get d ''_links'' (JObj [])
      \<and> pr_merged p = dict_get d ''merged'' JNull
      \<and> pr_merged_at p = strptime_attribute (JObj d) ''merged_at''
      \<and> pr_mergeable p = dict_get d ''mergeable'' (JBool False)
      \<and> pr_mergeable_state p = dict_get d ''mergeable_state'' JNull
      \<and> pr_merged_by p = class_attribute (JObj d) ''merged_by'' (Instance ''User'')
      \<and> pr_number p = dict_get d ''number'' JNull
      \<and> pr_patch_url p = dict_get d ''patch_url'' JNull
      \<and> pr_review_comment_url p = class_attribute (JObj d) ''review_comment_url'' (Instance ''URITemplate'')
      \<and> pr_review_comments_count p = dict_get d ''review_comments'' JNull
      \<and> pr_review_comments_url p = dict_get d ''review_comments_url'' JNull
      \<and> pr_state p = dict_get d ''state'' JNull
      \<and> pr_title p = dict_get d ''title'' JNull
      \<and> pr_updated_at p = strptime_attribute (JObj d) ''updated_at''
      \<and> pr_user p = class_attribute (JObj d) ''user'' (Instance ''User'')
      \<and> pr_assignee p = class_attribute (JObj d) ''assignee'' (Instance ''User'')
      \<and> (case pr_base p of
            Built dst \<Rightarrow> truthy (dict_get d ''base'' JNull)
              \<and> PullDestination (dict_get d ''base'' JNull) ''Base'' = Inr dst
          | Plain v \<Rightarrow> \<not> truthy v \<and> v = dict_get d ''base'' JNull)
      \<and> (case pr_head p of
            Built dst \<Rightarrow> truthy (dict_get d ''head'' JNull)
              \<and> PullDestination (dict_get d ''head'' JNull) ''Head'' = Inr dst
          | Plain v \<Rightarrow> \<not> truthy v \<and> v = dict_get d ''head'' JNull)
      \<and> pr_repository p =
           (case pr_base p of Built dst \<Rightarrow> Built (pd_repo dst) | Plain v \<Rightarrow> Plain v))
   \<and> (PullDestination (JObj d) direction = Inr dst \<longrightarrow>
        pd_direction dst = direction
      \<and> pd_ref dst = dict_get d ''ref'' JNull
      \<and> pd_label dst = dict_get d ''label'' JNull
      \<and> pd_sha dst = dict_get d ''sha'' JNull
      \<and> pd_user dst =
           (if truthy (dict_get d ''user'' JNull)
            then Built (Instance ''User'' (dict_get d ''user'' JNull)) else Plain JNull))
   \<and> dict_get d k dflt = (case map_of d k of None \<Rightarrow> dflt | Some v \<Rightarrow> v)
   \<and> class_attribute (JObj d) k cl =
        (if truthy (dict_get d k JNull) then Built (cl (dict_get d k JNull))
         else Plain (dict_get d k JNull))
   \<and> strptime_attribute (JObj d) k =
        (if truthy (dict_get d k JNull) then Built (Instance ''datetime'' (dict_get d k JNull))
         else Plain (dict_get d k JNull))"
proof -
  have pfile: "pf_sha (PullFile_update_attributes (JObj d)) = dict_get d ''sha'' JNull
      \<and> pf_filename (PullFile_update_attributes (JObj d)) = dict_get d ''filename'' JNull
      \<and> pf_status (PullFile_update_attributes (JObj d)) = dict_get d ''status'' JNull
      \<and> pf_additions_count (PullFile_update_attributes (JObj d)) = dict_get d ''additions'' JNull
      \<and> pf_deletions_count (PullFile_update_attributes (JObj d)) = dict_get d ''deletions'' JNull
      \<and> pf_changes_count (PullFile_update_attributes (JObj d)) = dict_get d ''changes'' JNull
      \<and> pf_blob_url (PullFile_update_attributes (JObj d)) = dict_get d ''blob_url'' JNull
      \<and> pf_raw_url (PullFile_update_attributes (JObj d)) = dict_get d ''raw_url'' JNull
      \<and> pf_patch (PullFile_update_attributes (JObj d)) = dict_get d ''patch'' JNull
      \<and> pf_contents_url (PullFile_update_attributes (JObj d)) = dict_get d ''contents_url'' JNull"
    by (simp add: PullFile_update_attributes_def get_attribute_obj)
  have review: "rv_id (PullReview_update_attributes (JObj d)) = dict_get d ''id'' JNull
      \<and> rv_commit_id (PullReview_update_attributes (JObj d)) = dict_get d ''commit_id'' JNull
      \<and> rv_user (PullReview_update_attributes (JObj d)) = class_attribute (JObj d) ''user'' (Instance ''User'')
      \<and> rv_state (PullReview_update_attributes (JObj d)) = dict_get d ''state'' JNull
      \<and> rv_created_at (PullReview_update_attributes (JObj d)) = strptime_attribute (JObj d) ''created_at''
      \<and> rv_body (PullReview_update_attributes (JObj d)) = dict_get d ''body'' JNull
      \<and> rv_pull_request_url (PullReview_update_attributes (JObj d)) = dict_get d ''pull_request_url'' JNull"
    by (simp add: PullReview_update_attributes_def get_attribute_obj)
  have comment: "rc_user (ReviewComment_update_attributes self (JObj d)) = class_attribute (JObj d) ''user'' (Instance ''User'')
      \<and> rc_original_position (ReviewComment_update_attributes self (JObj d)) = dict_get d ''original_position'' JNull
      \<and> rc_path (ReviewComment_update_attributes self (JObj d)) = dict_get d ''path'' JNull
      \<and> rc_position (ReviewComment_update_attributes self (JObj d)) = dict_get d ''position'' JNull
      \<and> rc_commit_id (ReviewComment_update_attributes self (JObj d)) = dict_get d ''commit_id'' JNull
      \<and> rc_diff_hunk (ReviewComment_update_attributes self (JObj d)) = dict_get d ''diff_hunk'' JNull
      \<and> rc_original_commit_id (ReviewComment_update_attributes self (JObj d)) = dict_get d ''original_commit_id'' JNull
      \<and> rc_pull_request_url (ReviewComment_update_attributes self (JObj d)) = dict_get d ''pull_request_url'' JNull
      \<and> rc_api (ReviewComment_update_attributes self (JObj d)) = rc_api self
      \<and> rc_id (ReviewComment_update_attributes self (JObj d)) = rc_id self"
    by (simp add: ReviewComment_update_attributes_def get_attribute_obj)
  have pull: "pr_api p = dict_get d ''url'' JNull
      \<and> pr_body p = dict_get d ''body'' JNull
      \<and> pr_body_html p = dict_get d ''body_html'' JNull
      \<and> pr_body_text p = dict_get d ''body_text'' JNull
      \<and> pr_additions_count p = dict_get d ''additions'' JNull
      \<and> pr_deletions_count p = dict_get d ''deletions'' JNull
      \<and> pr_closed_at p = strptime_attribute (JObj d) ''closed_at''
      \<and> pr_comments_count p = dict_get d ''comments'' JNull
      \<and> pr_comments_url p = dict_get d ''comments_url'' JNull
      \<and> pr_commits_count p = dict_get d ''commits'' JNull
      \<and> pr_commits_url p = dict_get d ''commits_url'' JNull
      \<and> pr_created_at p = strptime_attribute (JObj d) ''created_at''
      \<and> pr_diff_url p = dict_get d ''diff_url'' JNull
      \<and> pr_html_url p = dict_get d ''html_url'' JNull
      \<and> pr_id p = dict_get d ''id'' JNull
      \<and> pr_issue_url p = dict_get d ''issue_url'' JNull
      \<and> pr_statuses_url p = dict_get d ''statuses_url'' JNull
      \<and> pr_links p = dict_get d ''_links'' (JObj [])
      \<and> pr_merged p = dict_get d ''merged'' JNull
      \<and> pr_merged_at p = strptime_attribute (JObj d) ''merged_at''
      \<and> pr_mergeable p = dict_get d ''mergeable'' (JBool False)
      \<and> pr_mergeable_state p = dict_get d ''mergeable_state'' JNull
      \<and> pr_merged_by p = class_attribute (JObj d) ''merged_by'' (Instance ''User'')
      \<and> pr_number p = dict_get d ''number'' JNull
      \<and> pr_patch_url p = dict_get d ''patch_url'' JNull
      \<and> pr_review_comment_url p = class_attribute (JObj d) ''review_comment_url'' (Instance ''URITemplate'')
      \<and> pr_review_comments_count p = dict_get d ''review_comments'' JNull
      \<and> pr_review_comments_url p = dict_get d ''review_comments_url'' JNull
      \<and> pr_state p = dict_get d ''state'' JNull
      \<and> pr_title p = dict_get d ''title'' JNull
      \<and> pr_updated_at p = strptime_attribute (JObj d) ''updated_at''
      \<and> pr_user p = class_attribute (JObj d) ''user'' (Instance ''User'')
      \<and> pr_assignee p = class_attribute (JObj d) ''assignee'' (Instance ''User'')
      \<and> (case pr_base p of
            Built dst \<Rightarrow> truthy (dict_get d ''base'' JNull)
              \<and> PullDestination (dict_get d ''base'' JNull) ''Base'' = Inr dst
          | Plain v \<Rightarrow> \<not> truthy v \<and> v = dict_get d ''base'' JNull)
      \<and> (case pr_head p of
            Built dst \<Rightarrow> truthy (dict_get d ''head'' JNull)
              \<and> PullDestination (dict_get d ''head'' JNull) ''Head'' = Inr dst
          | Plain v \<Rightarrow> \<not> truthy v \<and> v = dict_get d ''head'' JNull)
      \<and> pr_repository p =
           (case pr_base p of Built dst \<Rightarrow> Built (pd_repo dst) | Plain v \<Rightarrow> Plain v)"
    if built: "PullRequest_update_attributes (JObj d) = Inr p"
    using PullRequest_fields(1-33) [OF built, unfolded get_attribute_obj]
      destination_attribute_obj [OF PullRequest_fields(34) [OF built]]
      destination_attribute_obj [OF PullRequest_fields(35) [OF built]]
      PullRequest_fields(36) [OF built]
    by simp
  have dest: "pd_direction dst = direction
      \<and> pd_ref dst = dict_get d ''ref'' JNull
      \<and> pd_label dst = dict_get d ''label'' JNull
      \<and> pd_sha dst = dict_get d ''sha'' JNull
      \<and> pd_user dst =
           (if truthy (dict_get d ''user'' JNull)
            then Built (Instance ''User'' (dict_get d ''user'' JNull)) else Plain JNull)"
    if built: "PullDestination (JObj d) direction = Inr dst"
    using PullDestination_fields [OF built] by simp
  have get: "dict_get d k dflt = (case map_of d k of None \<Rightarrow> dflt | Some v \<Rightarrow> v)"
    by (simp add: dict_get_def)
  have cls: "class_attribute (JObj d) k cl =
        (if truthy (dict_get d k JNull) then Built (cl (dict_get d k JNull))
         else Plain (dict_get d k JNull))"
    by (rule class_attribute_obj)
  have tm: "strptime_attribute (JObj d) k =
        (if truthy (dict_get d k JNull) then Built (Instance ''datetime'' (dict_get d k JNull))
         else Plain (dict_get d k JNull))"
    by (simp add: strptime_attribute_def class_attribute_obj)
  from pfile review comment pull dest get cls tm show ?thesis
    by blast
qed


theorem C2_from_wire_witness:
  "PullRequest_update_attributes
      (JObj [(''url'', JStr ''https://api.github.com/repos/o/r/pulls/1'')]) = Inr bare_pull
   \<and> pr_api bare_pull = JStr ''https://api.github.com/repos/o/r/pulls/1''
   \<and> pr_title bare_pull = JNull
   \<and> pr_links bare_pull = JObj []
   \<and> pr_mergeable bare_pull = JBool False
   \<and> pr_user bare_pull = Plain JNull
   \<and> PullDestination (JObj [(''ref'', JStr ''master'')]) ''Head'' =
       Inr (projr (PullDestination (JObj [(''ref'', JStr ''master'')]) ''Head''))
   \<and> pd_direction (projr (PullDestination (JObj [(''ref'', JStr ''master'')]) ''Head'')) = ''Head''
   \<and> pd_ref (projr (PullDestination (JObj [(''ref'', JStr ''master'')]) ''Head'')) = JStr ''master''
   \<and> pd_sha (projr (PullDestination (JObj [(''ref'', JStr ''master'')]) ''Head'')) = JNull"
proof -
  have dest: "PullDestination (JObj [(''ref'', JStr ''master'')]) ''Head'' =
       Inr (projr (PullDestination (JObj [(''ref'', JStr ''master'')]) ''Head''))"
    by (simp add: dict_get_def)
  show ?thesis
    using C2_from_wire [where d = "[(''url'', JStr ''https://api.github.com/repos/o/r/pulls/1'')]"
        and p = bare_pull and k = "''user''" and cl = "Instance ''User''"]
      C2_from_wire [where d = "[(''ref'', JStr ''master'')]" and direction = "''Head''"
        and dst = "projr (PullDestination (JObj [(''ref'', JStr ''master'')]) ''Head'')"]
      dest bare_pull_built
    by (simp add: dict_get_def)
qed

theorem C2_counterexample:
  "map_sum id pd_direction
     (PullDestination (JObj [(''direction'', JStr ''Head''), (''ref'', JStr ''master'')]) ''Base'')
     = Inr ''Base''
   \<and> map_sum id pr_repository
     (PullRequest_update_attributes (JObj [(''repository'', JStr ''o/r'')])) = Inr (Plain JNull)"
  by (simp add: dict_get_def PullRequest_update_attributes_def destination_attribute_def
      class_attribute_def get_attribute_def strptime_attribute_def)

text \<open>
  C1, as amended. For every public operation of \<^verbatim>\<open>PullRequest\<close>, \<^verbatim>\<open>PullFile\<close>, \<^verbatim>\<open>PullReview\<close> and
  \<^verbatim>\<open>ReviewComment\<close>, and for every input, a single call sends at most one HTTP request to
  the injected client, and a call that sends one then decodes the response: its
  result is computed from the response to that request alone. Exactly one request is
  sent except in these cases, where none is: \<^verbatim>\<open>update\<close> with title, body and state all
  \<^verbatim>\<open>None\<close>; \<^verbatim>\<open>create_comment\<close> with a falsy body; \<^verbatim>\<open>is_merged\<close> on a pull request whose
  \<^verbatim>\<open>merged\<close> attribute is truthy; \<^verbatim>\<open>create_review_comment\<close> when \<^verbatim>\<open>int(position)\<close> raises and
  \<^verbatim>\<open>reply\<close> when the comment's \<^verbatim>\<open>_api\<close> is not a string (both raise before the request);
  and the list-returning methods, which return the lazy sequence or raise without
  sending. The claim as stated, that no call sends zero requests, fails on the three
  guarded calls of the counterexample.
\<close>

theorem C1_requests_per_call:
  "(\<exists>rq dec. \<forall>c. contents c f = ([rq], dec (c rq)))
   \<and> (if title = JNull \<and> body = JNull \<and> state = JNull
       then \<forall>c. update c p title body state = ([], Inr (p, False))
       else \<exists>rq dec. \<forall>c. update c p title body state = ([rq], dec (c rq)))
   \<and> (\<exists>rq dec. \<forall>c. close c p = ([rq], dec (c rq)))
   \<and> (\<exists>rq dec. \<forall>c. reopen c p = ([rq], dec (c rq)))
   \<and> (if truthy body
       then \<exists>rq dec. \<forall>c. create_comment c p body = ([rq], dec (c rq))
       else \<forall>c. create_comment c p body = ([], NullObject ''IssueComment''))
   \<and> (case py_int position of
         Inr n \<Rightarrow> \<exists>rq dec. \<forall>c.
           create_review_comment c p body commit_id path position = ([rq], dec (c rq))
       | Inl err \<Rightarrow> \<forall>c.
           create_review_comment c p body commit_id path position = ([], Inl err))
   \<and> (\<exists>rq dec. \<forall>c. diff c p = ([rq], dec (c rq)))
   \<and> (\<exists>rq dec. \<forall>c. patch c p = ([rq], dec (c rq)))
   \<and> (if truthy (pr_merged p)
       then \<forall>c. is_merged c p = ([], pr_merged p)
       else \<exists>rq dec. \<forall>c. is_merged c p = ([rq], dec (c rq)))
   \<and> (\<exists>rq dec. \<forall>c. issue c p = ([rq], dec (c rq)))
   \<and> (\<exists>rq dec. \<forall>c. merge c p commit_message sha squash = ([rq], dec (c rq)))
   \<and> (\<exists>res. \<forall>c. commits c p number etag = ([], res))
   \<and> (\<exists>res. \<forall>c. files c p number etag = ([], res))
   \<and> (\<exists>res. \<forall>c. issue_comments c p number etag = ([], res))
   \<and> (\<exists>res. \<forall>c. review_comments c p number etag = ([], res))
   \<and> (\<exists>res. \<forall>c. reviews c p number etag = ([], res))
   \<and> (if is_str (rc_api r)
       then \<exists>rq dec. \<forall>c. reply c r body = ([rq], dec (c rq))
       else \<forall>c. reply c r body = ([], Inl AttributeError))"
proof -
  have upd: "if title = JNull \<and> body = JNull \<and> state = JNull
       then \<forall>c. update c p title body state = ([], Inr (p, False))
       else \<exists>rq dec. \<forall>c. update c p title body state = ([rq], dec (c rq))"
    using update_decodes [of title body state p]
    by (simp add: update_def remove_none_def)
  have comment: "if truthy body
       then \<exists>rq dec. \<forall>c. create_comment c p body = ([rq], dec (c rq))
       else \<forall>c. create_comment c p body = ([], NullObject ''IssueComment'')"
    using create_comment_decodes [of body p]
    by (simp add: create_comment_def instance_or_null_def)
  have review: "case py_int position of
         Inr n \<Rightarrow> \<exists>rq dec. \<forall>c.
           create_review_comment c p body commit_id path position = ([rq], dec (c rq))
       | Inl err \<Rightarrow> \<forall>c.
           create_review_comment c p body commit_id path position = ([], Inl err)"
  proof (cases "py_int position")
    case (Inl err)
    then show ?thesis by (simp add: create_review_comment_def)
  next
    case (Inr n)
    with create_review_comment_decodes [OF Inr, of p body commit_id path] show ?thesis
      by simp
  qed
  have merged: "if truthy (pr_merged p)
       then \<forall>c. is_merged c p = ([], pr_merged p)
       else \<exists>rq dec. \<forall>c. is_merged c p = ([rq], dec (c rq))"
    using is_merged_decodes [of p]
    by (simp add: is_merged_def)
  have lists: "\<exists>res. \<forall>c. commits c p number etag = ([], res)"
    "\<exists>res. \<forall>c. files c p number etag = ([], res)"
    "\<exists>res. \<forall>c. issue_comments c p number etag = ([], res)"
    "\<exists>res. \<forall>c. review_comments c p number etag = ([], res)"
    "\<exists>res. \<forall>c. reviews c p number etag = ([], res)"
    by (simp_all add: commits_def files_def issue_comments_def review_comments_def
        reviews_def Let_def)
  have rep: "if is_str (rc_api r)
       then \<exists>rq dec. \<forall>c. reply c r body = ([rq], dec (c rq))
       else \<forall>c. reply c r body = ([], Inl AttributeError)"
  proof (cases "rc_api r")
    case (JStr a)
    with reply_decodes [OF JStr, of body] show ?thesis by simp
  qed (simp_all add: reply_def)
  show ?thesis
    apply (intro conjI)
    subgoal by (rule contents_decodes)
    subgoal by (rule upd)
    subgoal by (rule close_decodes)
    subgoal by (rule reopen_decodes)
    subgoal by (rule comment)
    subgoal by (rule review)
    subgoal by (rule diff_decodes)
    subgoal by (rule patch_decodes)
    subgoal by (rule merged)
    subgoal by (rule issue_decodes)
    subgoal by (rule merge_decodes)
    subgoal by (rule lists(1))
    subgoal by (rule lists(2))
    subgoal by (rule lists(3))
    subgoal by (rule lists(4))
    subgoal by (rule lists(5))
    subgoal by (rule rep)
    done
qed

theorem C1_counterexample:
  "length (fst (update (answer 200 [] JNull) sample_pull JNull JNull JNull)) = 0
   \<and> length (fst (create_comment (answer 201 [] JNull) sample_pull (JStr []))) = 0
   \<and> length (fst (is_merged (answer 204 [] JNull) (sample_pull\<lparr>pr_merged := JBool True\<rparr>))) = 0"
  by (simp add: update_def create_comment_def is_merged_def remove_none_def)

text \<open>
  C3, as amended. Every list-returning method of \<^verbatim>\<open>PullRequest\<close> (\<^verbatim>\<open>commits\<close>, \<^verbatim>\<open>files\<close>,
  \<^verbatim>\<open>issue_comments\<close>, \<^verbatim>\<open>review_comments\<close>, \<^verbatim>\<open>reviews\<close>) hands \<^verbatim>\<open>int(number)\<close>, the URL built for
  its endpoint and the element type to one and the same pagination helper \<open>iter\<close> and
  returns the lazy sequence the helper makes, whenever \<^verbatim>\<open>int(number)\<close> succeeds and, for
  \<^verbatim>\<open>issue_comments\<close>, the links attribute is a dictionary, its \<^verbatim>\<open>comments\<close> entry is a
  dictionary (or is missing) and, when that entry has no truthy \<^verbatim>\<open>href\<close>, the API URL is
  a string. For \<^verbatim>\<open>issue_comments\<close> the URL is that \<^verbatim>\<open>href\<close>, or else the \<^verbatim>\<open>comments\<close> sub-URL
  of the API URL with \<^verbatim>\<open>pulls\<close> replaced by \<^verbatim>\<open>issues\<close>. In every other case the call raises
  and returns no sequence: \<^verbatim>\<open>AttributeError\<close> from the attribute reads of
  \<^verbatim>\<open>issue_comments\<close>, or the \<^verbatim>\<open>TypeError\<close> or \<^verbatim>\<open>ValueError\<close> of \<^verbatim>\<open>int(number)\<close>. The claim as
  stated, that every such call returns the helper's sequence, fails on a pull request
  built without a \<^verbatim>\<open>url\<close> and on a count that is no integer.
\<close>

theorem C3_list_methods:
  "(case py_int number of
      Inr n \<Rightarrow>
        commits c p number e =
          ([], Inr (iter n (BuildUrl [''commits''] (pr_api p)) ''RepoCommit'' e []))
        \<and> files c p number e =
          ([], Inr (iter n (BuildUrl [''files''] (pr_api p)) ''PullFile'' e []))
        \<and> review_comments c p number e =
          ([], Inr (iter n (BuildUrl [''comments''] (pr_api p)) ''ReviewComment'' e []))
        \<and> reviews c p number e =
          ([], Inr (iter n (BuildUrl [''reviews''] (pr_api p)) ''PullReview'' e
                      [(''Accept'', ''application/vnd.github.black-cat-preview+json'')]))
    | Inl err \<Rightarrow>
        commits c p number e = ([], Inl err)
        \<and> files c p number e = ([], Inl err)
        \<and> review_comments c p number e = ([], Inl err)
        \<and> reviews c p number e = ([], Inl err))
   \<and> (pr_links p = JObj l \<and> dict_get l ''comments'' (JObj []) = JObj cm
        \<and> truthy (dict_get cm ''href'' JNull) \<and> py_int number = Inr n \<longrightarrow>
        issue_comments c p number e =
          ([], Inr (iter n (Url (dict_get cm ''href'' JNull)) ''IssueComment'' e [])))
   \<and> (pr_links p = JObj l \<and> dict_get l ''comments'' (JObj []) = JObj cm
        \<and> \<not> truthy (dict_get cm ''href'' JNull) \<and> pr_api p = JStr a
        \<and> py_int number = Inr n \<longrightarrow>
        issue_comments c p number e =
          ([], Inr (iter n (BuildUrl [''comments''] (JStr (str_replace ''pulls'' ''issues'' a)))
                      ''IssueComment'' e [])))
   \<and> (\<not> is_dict (pr_links p) \<longrightarrow> issue_comments c p number e = ([], Inl AttributeError))
   \<and> (pr_links p = JObj l \<and> \<not> is_dict (dict_get l ''comments'' (JObj [])) \<longrightarrow>
        issue_comments c p number e = ([], Inl AttributeError))
   \<and> (pr_links p = JObj l \<and> dict_get l ''comments'' (JObj []) = JObj cm
        \<and> \<not> truthy (dict_get cm ''href'' JNull) \<and> \<not> is_str (pr_api p) \<longrightarrow>
        issue_comments c p number e = ([], Inl AttributeError))
   \<and> (pr_links p = JObj l \<and> dict_get l ''comments'' (JObj []) = JObj cm
        \<and> (truthy (dict_get cm ''href'' JNull) \<or> is_str (pr_api p))
        \<and> py_int number = Inl err \<longrightarrow>
        issue_comments c p number e = ([], Inl err))"
proof -
  have lists: "case py_int number of
      Inr n \<Rightarrow>
        commits c p number e =
          ([], Inr (iter n (BuildUrl [''commits''] (pr_api p)) ''RepoCommit'' e []))
        \<and> files c p number e =
          ([], Inr (iter n (BuildUrl [''files''] (pr_api p)) ''PullFile'' e []))
        \<and> review_comments c p number e =
          ([], Inr (iter n (BuildUrl [''comments''] (pr_api p)) ''ReviewComment'' e []))
        \<and> reviews c p number e =
          ([], Inr (iter n (BuildUrl [''reviews''] (pr_api p)) ''PullReview'' e
                      [(''Accept'', ''application/vnd.github.black-cat-preview+json'')]))
    | Inl err \<Rightarrow>
        commits c p number e = ([], Inl err)
        \<and> files c p number e = ([], Inl err)
        \<and> review_comments c p number e = ([], Inl err)
        \<and> reviews c p number e = ([], Inl err)"
    by (simp add: commits_def files_def review_comments_def reviews_def split: sum.splits)
  have href: "issue_comments c p number e =
          ([], Inr (iter n (Url (dict_get cm ''href'' JNull)) ''IssueComment'' e []))"
    if "pr_links p = JObj l" "dict_get l ''comments'' (JObj []) = JObj cm"
      "truthy (dict_get cm ''href'' JNull)" "py_int number = Inr n"
    using that by (simp add: issue_comments_def)
  have built: "issue_comments c p number e =
          ([], Inr (iter n (BuildUrl [''comments''] (JStr (str_replace ''pulls'' ''issues'' a)))
                      ''IssueComment'' e []))"
    if "pr_links p = JObj l" "dict_get l ''comments'' (JObj []) = JObj cm"
      "\<not> truthy (dict_get cm ''href'' JNull)" "pr_api p = JStr a" "py_int number = Inr n"
    using that by (simp add: issue_comments_def)
  have no_links: "issue_comments c p number e = ([], Inl AttributeError)"
    if "\<not> is_dict (pr_links p)"
    using that by (cases "pr_links p") (simp_all add: issue_comments_def)
  have no_comments: "issue_comments c p number e = ([], Inl AttributeError)"
    if "pr_links p = JObj l" "\<not> is_dict (dict_get l ''comments'' (JObj []))"
    using that by (cases "dict_get l ''comments'' (JObj [])") (simp_all add: issue_comments_def)
  have no_api: "issue_comments c p number e = ([], Inl AttributeError)"
    if "pr_links p = JObj l" "dict_get l ''comments'' (JObj []) = JObj cm"
      "\<not> truthy (dict_get cm ''href'' JNull)" "\<not> is_str (pr_api p)"
    using that by (cases "pr_api p") (simp_all add: issue_comments_def)
  have no_int: "issue_comments c p number e = ([], Inl err)"
    if "pr_links p = JObj l" "dict_get l ''comments'' (JObj []) = JObj cm"
      "truthy (dict_get cm ''href'' JNull) \<or> is_str (pr_api p)" "py_int number = Inl err"
    using that by (cases "pr_api p") (auto simp add: issue_comments_def)
  from lists href built no_links no_comments no_api no_int show ?thesis
    by blast
qed

theorem C3_list_methods_witness:
  "py_int (JStr '' 30 '') = Inr 30
   \<and> commits (answer 200 [] JNull) sample_pull (JStr '' 30 '') JNull =
       ([], Inr (iter 30 (BuildUrl [''commits''] (JStr ''https://api.github.com/repos/o/r/pulls/1''))
                   ''RepoCommit'' JNull []))
   \<and> pr_links sample_pull = JObj [(''comments'',
       JObj [(''href'', JStr ''https://api.github.com/repos/o/r/issues/1/comments'')])]
   \<and> issue_comments (answer 200 [] JNull) sample_pull (JStr '' 30 '') JNull =
       ([], Inr (iter 30 (Url (JStr ''https://api.github.com/repos/o/r/issues/1/comments''))
                   ''IssueComment'' JNull []))
   \<and> pr_links bare_pull = JObj []
   \<and> pr_api bare_pull = JStr ''https://api.github.com/repos/o/r/pulls/1''
   \<and> py_int (JInt (- 1)) = Inr (- 1)
   \<and> issue_comments (answer 200 [] JNull) bare_pull (JInt (- 1)) JNull =
       ([], Inr (iter (- 1) (BuildUrl [''comments''] (JStr ''https://api.github.com/repos/o/r/issues/1''))
                   ''IssueComment'' JNull []))
   \<and> py_int JNull = Inl TypeError
   \<and> issue_comments (answer 200 [] JNull) bare_pull JNull JNull = ([], Inl TypeError)
   \<and> \<not> is_str (pr_api anon_pull)
   \<and> issue_comments (answer 200 [] JNull) anon_pull (JInt (- 1)) JNull = ([], Inl AttributeError)
   \<and> \<not> is_dict (pr_links (anon_pull\<lparr>pr_links := JNull\<rparr>))
   \<and> issue_comments (answer 200 [] JNull) (anon_pull\<lparr>pr_links := JNull\<rparr>) (JInt 1) JNull =
       ([], Inl AttributeError)
   \<and> \<not> is_dict (dict_get [(''comments'', JStr ''x'')] ''comments'' (JObj []))
   \<and> issue_comments (answer 200 [] JNull)
        (anon_pull\<lparr>pr_links := JObj [(''comments'', JStr ''x'')]\<rparr>) (JInt 1) JNull =
       ([], Inl AttributeError)"
  using C3_list_methods [where number = "JStr '' 30 ''" and c = "answer 200 [] JNull"
      and p = sample_pull and e = JNull
      and l = "[(''comments'', JObj [(''href'', JStr ''https://api.github.com/repos/o/r/issues/1/comments'')])]"
      and cm = "[(''href'', JStr ''https://api.github.com/repos/o/r/issues/1/comments'')]"
      and n = 30]
    C3_list_methods [where number = "JInt (- 1)" and c = "answer 200 [] JNull"
      and p = bare_pull and e = JNull and l = "[]" and cm = "[]" and n = "- 1"
      and a = "''https://api.github.com/repos/o/r/pulls/1''"]
    C3_list_methods [where number = JNull and c = "answer 200 [] JNull"
      and p = bare_pull and e = JNull and l = "[]" and cm = "[]" and err = TypeError]
    C3_list_methods [where number = "JInt (- 1)" and c = "answer 200 [] JNull"
      and p = anon_pull and e = JNull and l = "[]" and cm = "[]"]
    C3_list_methods [where number = "JInt 1" and c = "answer 200 [] JNull"
      and p = "anon_pull\<lparr>pr_links := JNull\<rparr>" and e = JNull]
    C3_list_methods [where number = "JInt 1" and c = "answer 200 [] JNull"
      and p = "anon_pull\<lparr>pr_links := JObj [(''comments'', JStr ''x'')]\<rparr>" and e = JNull
      and l = "[(''comments'', JStr ''x'')]"]
  by (simp add: sample_pull_links sample_pull_urls bare_pull_links bare_pull_api
      anon_pull_links anon_pull_api dict_get_def replace_sample
      parse_int_def py_strip_def is_space_def parse_unsigned_def digit_of_def)

theorem C3_counterexample:
  "issue_comments (answer 200 [] JNull) anon_pull (JInt (- 1)) JNull = ([], Inl AttributeError)
   \<and> commits (answer 200 [] JNull) sample_pull JNull JNull = ([], Inl TypeError)
   \<and> files (answer 200 [] JNull) sample_pull (JStr ''x'') JNull = ([], Inl ValueError)"
  by (simp add: issue_comments_def commits_def files_def anon_pull_links anon_pull_api
      dict_get_def parse_int_def py_strip_def is_space_def parse_unsigned_def digit_of_def)

text \<open>
  C6, as amended. \<^verbatim>\<open>PullRequest.merge(commit_message, sha, squash)\<close> sends a single PUT to
  the pull request's \<^verbatim>\<open>merge\<close> sub-URL with a payload that always holds \<^verbatim>\<open>squash\<close>, holds
  \<^verbatim>\<open>sha\<close> exactly when \<^verbatim>\<open>sha\<close> is truthy, holds \<^verbatim>\<open>commit_message\<close> exactly when it is not
  \<^verbatim>\<open>None\<close>, and holds no other key. It returns \<^verbatim>\<open>False\<close> when the decoded 200 response is
  falsy (null, or empty such as \<^verbatim>\<open>{}\<close>) or the status is not 200, and otherwise the
  value of the \<^verbatim>\<open>merged\<close> field of the response; a truthy response without that field
  raises \<^verbatim>\<open>KeyError\<close>, and one that is no object \<^verbatim>\<open>TypeError\<close>. The claim as stated, that
  every non-null response gives its \<^verbatim>\<open>merged\<close> field, fails on the empty object.
\<close>

theorem C6_merge:
  "\<exists>parameters rq.
     rq = \<lparr>rq_verb = PUT, rq_url = BuildUrl [''merge''] (pr_api self),
            rq_data = Dumps parameters, rq_headers = []\<rparr>
     \<and> fst (merge c self commit_message sha squash) = [rq]
     \<and> map_of parameters ''squash'' = Some squash
     \<and> map_of parameters ''sha'' = (if truthy sha then Some sha else None)
     \<and> map_of parameters ''commit_message'' =
          (if commit_message \<noteq> JNull then Some commit_message else None)
     \<and> fst ` set parameters \<subseteq> {''squash'', ''sha'', ''commit_message''}
     \<and> distinct (map fst parameters)
     \<and> (status_code (c rq) \<noteq> 200 \<or> \<not> truthy (decoded (c rq)) \<longrightarrow>
          snd (merge c self commit_message sha squash) = Inr (JBool False))
     \<and> (\<forall>d v. status_code (c rq) = 200 \<and> decoded (c rq) = JObj d
              \<and> map_of d ''merged'' = Some v \<longrightarrow>
          snd (merge c self commit_message sha squash) = Inr v)
     \<and> (\<forall>d. status_code (c rq) = 200 \<and> decoded (c rq) = JObj d \<and> d \<noteq> []
              \<and> map_of d ''merged'' = None \<longrightarrow>
          snd (merge c self commit_message sha squash) = Inl KeyError)
     \<and> (status_code (c rq) = 200 \<and> truthy (decoded (c rq)) \<and> \<not> is_dict (decoded (c rq)) \<longrightarrow>
          snd (merge c self commit_message sha squash) = Inl TypeError)"
proof -
  define parameters where "parameters =
     [(''squash'', squash)]
     @ (if truthy sha then [(''sha'', sha)] else [])
     @ (if commit_message \<noteq> JNull then [(''commit_message'', commit_message)] else [])"
  define rq where "rq = \<lparr>rq_verb = PUT, rq_url = BuildUrl [''merge''] (pr_api self),
            rq_data = Dumps parameters, rq_headers = []\<rparr>"
  have run: "merge c self commit_message sha squash =
      ([rq], if \<not> truthy (json_of (c rq) 200) then Inr (JBool False)
             else py_item (json_of (c rq) 200) ''merged'')"
    by (simp add: merge_def Let_def rq_def parameters_def)
  have payload: "map_of parameters ''squash'' = Some squash"
    "map_of parameters ''sha'' = (if truthy sha then Some sha else None)"
    "map_of parameters ''commit_message'' =
          (if commit_message \<noteq> JNull then Some commit_message else None)"
    "fst ` set parameters \<subseteq> {''squash'', ''sha'', ''commit_message''}"
    "distinct (map fst parameters)"
    by (auto simp add: parameters_def)
  have falsy: "snd (merge c self commit_message sha squash) = Inr (JBool False)"
    if "status_code (c rq) \<noteq> 200 \<or> \<not> truthy (decoded (c rq))"
    using that by (auto simp add: run json_of_def boolean_def)
  have field: "snd (merge c self commit_message sha squash) = Inr v"
    if "status_code (c rq) = 200" "decoded (c rq) = JObj d" "map_of d ''merged'' = Some v"
    for d v
    using that by (auto simp add: run json_of_def boolean_def)
  have missing: "snd (merge c self commit_message sha squash) = Inl KeyError"
    if "status_code (c rq) = 200" "decoded (c rq) = JObj d" "d \<noteq> []"
      "map_of d ''merged'' = None" for d
    using that by (simp add: run json_of_def boolean_def)
  have other: "snd (merge c self commit_message sha squash) = Inl TypeError"
    if "status_code (c rq) = 200" "truthy (decoded (c rq))" "\<not> is_dict (decoded (c rq))"
    using that by (cases "decoded (c rq)") (simp_all add: run json_of_def boolean_def)
  have sent: "fst (merge c self commit_message sha squash) = [rq]"
    by (simp add: run)
  show ?thesis
    apply (intro exI [of _ parameters] exI [of _ rq] conjI allI impI)
    subgoal by (fact rq_def)
    subgoal by (fact sent)
    subgoal by (fact payload(1))
    subgoal by (fact payload(2))
    subgoal by (fact payload(3))
    subgoal by (fact payload(4))
    subgoal by (fact payload(5))
    subgoal using falsy by blast
    subgoal using field by blast
    subgoal using missing by blast
    subgoal using other by blast
    done
qed

theorem C6_merge_witness:
  "merge (answer 200 [] (JObj [(''sha'', JStr ''abc''), (''merged'', JBool True)]))
      sample_pull (JStr ''msg'') (JStr ''abc'') (JBool False) =
     ([\<lparr>rq_verb = PUT,
        rq_url = BuildUrl [''merge''] (JStr ''https://api.github.com/repos/o/r/pulls/1''),
        rq_data = Dumps [(''squash'', JBool False), (''sha'', JStr ''abc''),
                         (''commit_message'', JStr ''msg'')],
        rq_headers = []\<rparr>],
      Inr (JBool True))
   \<and> snd (merge (answer 200 [] JNull) sample_pull JNull JNull (JBool False)) = Inr (JBool False)
   \<and> snd (merge (answer 200 ''{}'' (JObj [])) sample_pull JNull JNull (JBool False)) =
       Inr (JBool False)
   \<and> snd (merge (answer 405 [] (JObj [(''message'', JStr ''no'')])) sample_pull JNull JNull
        (JBool False)) = Inr (JBool False)
   \<and> snd (merge (answer 200 [] (JObj [(''message'', JStr ''no'')])) sample_pull JNull JNull
        (JBool False)) = Inl KeyError
   \<and> snd (merge (answer 200 [] (JArr [JInt 1])) sample_pull JNull JNull (JBool False)) =
       Inl TypeError"
  using C6_merge [of sample_pull "answer 200 [] (JObj [(''sha'', JStr ''abc''), (''merged'', JBool True)])"
      "JStr ''msg''" "JStr ''abc''" "JBool False"]
    C6_merge [of sample_pull "answer 200 [] JNull" JNull JNull "JBool False"]
    C6_merge [of sample_pull "answer 200 ''{}'' (JObj [])" JNull JNull "JBool False"]
    C6_merge [of sample_pull "answer 405 [] (JObj [(''message'', JStr ''no'')])" JNull JNull "JBool False"]
    C6_merge [of sample_pull "answer 200 [] (JObj [(''message'', JStr ''no'')])" JNull JNull "JBool False"]
    C6_merge [of sample_pull "answer 200 [] (JArr [JInt 1])" JNull JNull "JBool False"]
  by (auto simp add: answer_def sample_pull_urls merge_def json_of_def boolean_def)

theorem C6_counterexample:
  "JObj [] \<noteq> JNull
   \<and> py_item (JObj []) ''merged'' = Inl KeyError
   \<and> merge (answer 200 ''{}'' (JObj [])) sample_pull JNull JNull (JBool False) =
       ([\<lparr>rq_verb = PUT,
          rq_url = BuildUrl [''merge''] (JStr ''https://api.github.com/repos/o/r/pulls/1''),
          rq_data = Dumps [(''squash'', JBool False)], rq_headers = []\<rparr>],
        Inr (JBool False))"
  by (simp add: merge_def json_of_def boolean_def answer_def sample_pull_urls)

end
